theory Spec2Isabelle
  imports Main "HOL-Library.Word" "HOL-Library.Monad_Syntax"
begin

section \<open>The SCD4x plugin data structure (P135)\<close>

text \<open>
  A shallow embedding of \<^verbatim>\<open>src/PluginStructs/P135_data_struct.cpp\<close>. The file is an adapter
  between the plugin framework of the firmware and the vendor driver of the sensor, so the
  embedding has three parts: the collaborators the file calls (driver, firmware helpers, host
  state), the object itself, and its four operations.

  A \<^verbatim>\<open>float\<close> is never computed with in this file, only passed on, so its type is the type
  parameter \<open>'f\<close>; the state of the driver object is the type parameter \<open>'s\<close>.
\<close>

subsection \<open>The sensor driver\<close>

text \<open>
  Every call on the driver object is written to the \<open>wire\<close> of the host state together with
  its arguments and with what the driver answered, so that a theorem can say which bus
  operations a call performed and whether they succeeded.
\<close>

datatype 'f bus_op =
    Begin bool bool bool
  | GetSensorAltitude "16 word"
  | SetSensorAltitude "16 word" bool
  | GetTemperatureOffset 'f
  | SetTemperatureOffset 'f bool
  | GetSerialNumber bool string
  | StartLowPowerPeriodicMeasurement bool
  | StartPeriodicMeasurement bool
  | StopPeriodicMeasurement bool
  | MeasureSingleShot bool
  | ReadMeasurement bool
  | GetCO2 "16 word"
  | GetHumidity 'f
  | GetTemperature 'f
  | PersistSettings bool
  | PerformFactoryReset bool
  | PerformSelfTest bool
  | GetDataReadyStatus bool
  | GetAutomaticSelfCalibrationEnabled bool

text \<open>
  The class \<^verbatim>\<open>SCD4x\<close> is a library the file only calls. It is a parameter of the model: a
  record of its methods, each a function of the driver object's state. \<open>scd4x_new\<close> is
  \<^verbatim>\<open>new (std::nothrow) SCD4x(sensorType)\<close>, which may return the null pointer (\<open>None\<close>).
  \<open>scd4x_getSerialNumber\<close> takes the old contents of the caller's buffer and returns the new.
\<close>

record ('s, 'f) SCD4x =
  scd4x_new :: "8 word \<Rightarrow> 's option"
  scd4x_begin :: "bool \<Rightarrow> bool \<Rightarrow> 's \<Rightarrow> bool \<times> 's"
  scd4x_getSensorAltitude :: "'s \<Rightarrow> 16 word \<times> 's"
  scd4x_setSensorAltitude :: "16 word \<Rightarrow> 's \<Rightarrow> bool \<times> 's"
  scd4x_getTemperatureOffset :: "'s \<Rightarrow> 'f \<times> 's"
  scd4x_setTemperatureOffset :: "'f \<Rightarrow> 's \<Rightarrow> bool \<times> 's"
  scd4x_getSerialNumber :: "string \<Rightarrow> 's \<Rightarrow> (bool \<times> string) \<times> 's"
  scd4x_startLowPowerPeriodicMeasurement :: "'s \<Rightarrow> bool \<times> 's"
  scd4x_startPeriodicMeasurement :: "'s \<Rightarrow> bool \<times> 's"
  scd4x_stopPeriodicMeasurement :: "'s \<Rightarrow> bool \<times> 's"
  scd4x_measureSingleShot :: "'s \<Rightarrow> bool \<times> 's"
  scd4x_readMeasurement :: "'s \<Rightarrow> bool \<times> 's"
  scd4x_getCO2 :: "'s \<Rightarrow> 16 word \<times> 's"
  scd4x_getHumidity :: "'s \<Rightarrow> 'f \<times> 's"
  scd4x_getTemperature :: "'s \<Rightarrow> 'f \<times> 's"
  scd4x_persistSettings :: "'s \<Rightarrow> bool \<times> 's"
  scd4x_performFactoryReset :: "'s \<Rightarrow> bool \<times> 's"
  scd4x_performSelfTest :: "'s \<Rightarrow> bool \<times> 's"
  scd4x_getDataReadyStatus :: "'s \<Rightarrow> bool \<times> 's"
  scd4x_getAutomaticSelfCalibrationEnabled :: "'s \<Rightarrow> bool \<times> 's"

subsection \<open>Firmware helpers and build-time constants\<close>

text \<open>
  The helpers \<^verbatim>\<open>parseString\<close>, \<^verbatim>\<open>parseStringKeepCase\<close>, \<^verbatim>\<open>essentiallyEqual\<close> and
  \<^verbatim>\<open>toString\<close> of the firmware, the conversion of a \<^verbatim>\<open>uint16_t\<close> to \<^verbatim>\<open>float\<close>, the literal
  \<^verbatim>\<open>0.0f\<close> and the macros of the plugin's header are not part of the file. They are the
  fields of one parameter. The four times that are assigned to the \<^verbatim>\<open>uint16_t timerDelay\<close> are
  16-bit words; \<^verbatim>\<open>P135_STOP_MEASUREMENT_DELAY\<close> is only ever added to \<^verbatim>\<open>millis()\<close>.
\<close>

record 'f firmware =
  parseString :: "string \<Rightarrow> nat \<Rightarrow> string"
  parseStringKeepCase :: "string \<Rightarrow> nat \<Rightarrow> string"
  essentiallyEqual :: "'f \<Rightarrow> 'f \<Rightarrow> bool"
  toString :: "'f \<Rightarrow> nat \<Rightarrow> string"
  float_of_uint16 :: "16 word \<Rightarrow> 'f"
  float_zero :: 'f
  P135_FEATURE_RESET_COMMANDS :: bool
  P135_STOP_MEASUREMENT_DELAY :: "32 word"
  P135_EXTEND_MEASURE_TIME :: "16 word"
  P135_SINGLE_SHOT_MEASURE_TIME :: "16 word"
  P135_LOW_POWER_MEASURE_TIME :: "16 word"
  P135_NORMAL_MEASURE_TIME :: "16 word"

subsection \<open>The host\<close>

datatype log_level = LOG_LEVEL_ERROR | LOG_LEVEL_INFO

record EventStruct =
  TaskIndex :: nat
  BaseVarIndex :: nat

text \<open>
  What the file reads and writes outside its own object: the output slots \<^verbatim>\<open>UserVar\<close>, the
  clock \<^verbatim>\<open>millis()\<close>, the timers requested from the scheduler (task and time, in call
  order), whether \<^verbatim>\<open>loglevelActiveFor(LOG_LEVEL_INFO)\<close> holds, the lines handed to the logger,
  and the bus operations performed.
\<close>

record 'f host =
  UserVar :: "nat \<Rightarrow> 'f"
  millis :: "32 word"
  timers :: "(nat \<times> 32 word) list"
  loglevelActiveFor_INFO :: bool
  logged :: "(log_level \<times> string) list"
  wire :: "'f bus_op list"

definition addLog :: "log_level \<Rightarrow> string \<Rightarrow> 'f host \<Rightarrow> 'f host" where
  "addLog level msg h = h\<lparr>logged := logged h @ [(level, msg)]\<rparr>"

definition schedule_task_device_timer :: "nat \<Rightarrow> 32 word \<Rightarrow> 'f host \<Rightarrow> 'f host" where
  "schedule_task_device_timer task t h = h\<lparr>timers := timers h @ [(task, t)]\<rparr>"

subsection \<open>Strings\<close>

text \<open>
  An Arduino \<^verbatim>\<open>String\<close> is a \<open>string\<close>; \<^verbatim>\<open>==\<close> and \<^verbatim>\<open>equals\<close> are equality,
  \<^verbatim>\<open>isEmpty\<close> is \<open>= []\<close>. A \<^verbatim>\<open>String\<close> made from an unsigned integer is its decimal
  numeral, and one made from a \<^verbatim>\<open>bool\<close> is \<^verbatim>\<open>1\<close> or \<^verbatim>\<open>0\<close>.
\<close>

definition digit :: "nat \<Rightarrow> char" where
  "digit d = char_of (48 + d)"

function String_nat :: "nat \<Rightarrow> string" where
  "String_nat n = (if n < 10 then [digit n] else String_nat (n div 10) @ [digit (n mod 10)])"
  by pat_completeness auto
termination
  by (relation "measure id") auto

definition String_uint16 :: "16 word \<Rightarrow> string" where
  "String_uint16 w = String_nat (unat w)"

definition String_bool :: "bool \<Rightarrow> string" where
  "String_bool b = (if b then ''1'' else ''0'')"

text \<open>
  The buffer \<^verbatim>\<open>serialNumber\<close> is zero-initialised and only the driver writes to it, a
  NUL-terminated string. It is modelled by that string: a read at or past its end is a read of
  a NUL, and \<^verbatim>\<open>String(serialNumber)\<close> is the part before the first NUL.
\<close>

definition char_at :: "string \<Rightarrow> nat \<Rightarrow> char" where
  "char_at buf i = (if i < length buf then buf ! i else CHR 0x00)"

definition String_cstr :: "string \<Rightarrow> string" where
  "String_cstr buf = takeWhile (\<lambda>c. c \<noteq> CHR 0x00) buf"

subsection \<open>The object\<close>

text \<open>
  The members of \<^verbatim>\<open>P135_data_struct\<close>. \<open>scd4x\<close> is the owned driver object; \<open>None\<close> is the
  null pointer.
\<close>

record ('s, 'f) P135_data_struct =
  scd4x :: "'s option"
  sensorType :: "8 word"
  altitude :: "16 word"
  tempOffset :: 'f
  autoCalibrate :: bool
  lowPowerMeasurement :: bool
  useSingleShot :: bool
  serialNumber :: string
  initialized :: bool
  firstRead :: bool
  singleShotStarted :: bool
  factoryResetCode :: string
  mustRunFactoryReset :: bool
  mustRunSelfTest :: bool

text \<open>
  Modelled from the spec: the default member initialisers, which are in the header and not in
  the file. The runtime state of the spec (section 3) starts with the first-read-discard flag
  armed, no single shot in progress, no pending reset or self-test, an empty serial number and
  no confirmation code; \<^verbatim>\<open>initialized(false)\<close> is in the constructor's own initialiser list.
\<close>

definition members :: "8 word \<Rightarrow> 16 word \<Rightarrow> 'f \<Rightarrow> bool \<Rightarrow> bool \<Rightarrow> bool \<Rightarrow> ('s, 'f) P135_data_struct" where
  "members sensorType' altitude' tempOffset' autoCalibrate' lowPowerMeasurement' useSingleShot' =
     \<lparr> scd4x = None, sensorType = sensorType', altitude = altitude', tempOffset = tempOffset',
       autoCalibrate = autoCalibrate', lowPowerMeasurement = lowPowerMeasurement',
       useSingleShot = useSingleShot', serialNumber = [], initialized = False,
       firstRead = True, singleShotStarted = False, factoryResetCode = [],
       mustRunFactoryReset = False, mustRunSelfTest = False \<rparr>"

text \<open>
  Modelled from the spec: the accessor \<^verbatim>\<open>isInitialized()\<close> of the header. The handle counts as
  initialized when initialization success was recorded and the driver object exists.
\<close>

definition isInitialized :: "('s, 'f) P135_data_struct \<Rightarrow> bool" where
  "isInitialized p \<longleftrightarrow> initialized p \<and> scd4x p \<noteq> None"

text \<open>
  A call through the pointer \<^verbatim>\<open>scd4x\<close>. Through the null pointer there is no defined
  behaviour: the result is \<open>None\<close>, and so is the result of every operation that gets there.
  Otherwise the driver runs, its object changes, and the call is written to the wire.
\<close>

definition bus ::
  "('a \<Rightarrow> 'f bus_op) \<Rightarrow> ('s \<Rightarrow> 'a \<times> 's) \<Rightarrow> ('s, 'f) P135_data_struct \<Rightarrow> 'f host \<Rightarrow>
   ('a \<times> ('s, 'f) P135_data_struct \<times> 'f host) option" where
  "bus mk f p h =
     (case scd4x p of
        None \<Rightarrow> None
      | Some s \<Rightarrow> (case f s of (r, s') \<Rightarrow> Some (r, p\<lparr>scd4x := Some s'\<rparr>, h\<lparr>wire := wire h @ [mk r]\<rparr>)))"

subsection \<open>startPeriodicMeasurements\<close>

definition startPeriodicMeasurements ::
  "('s, 'f) SCD4x \<Rightarrow> ('s, 'f) P135_data_struct \<Rightarrow> 'f host \<Rightarrow>
   (bool \<times> ('s, 'f) P135_data_struct \<times> 'f host) option" where
  "startPeriodicMeasurements drv p h =
     (if useSingleShot p then Some (True, p, h)
      else if lowPowerMeasurement p then
        bus StartLowPowerPeriodicMeasurement (scd4x_startLowPowerPeriodicMeasurement drv) p h
      else bus StartPeriodicMeasurement (scd4x_startPeriodicMeasurement drv) p h)"

subsection \<open>The constructor\<close>

definition init_log :: "'f firmware \<Rightarrow> bool \<Rightarrow> bool \<Rightarrow> string \<Rightarrow> 16 word \<Rightarrow> 'f \<Rightarrow> string" where
  "init_log fw ok hasSerial serial orgAltitude orgTempOffset =
     ''SCD4x: Init '' @
     (if ok then
        ''success, serial number: '' @ (if hasSerial then String_cstr serial else ''(unknown)'') @
        '', org.alt.comp.: '' @ String_uint16 orgAltitude @
        '' m, org.temp.offs.: '' @ toString fw orgTempOffset 2 @ ''C''
      else ''error'')"

definition P135_new ::
  "('s, 'f) SCD4x \<Rightarrow> 'f firmware \<Rightarrow> 8 word \<Rightarrow> 16 word \<Rightarrow> 'f \<Rightarrow> bool \<Rightarrow> bool \<Rightarrow> bool \<Rightarrow> 'f host \<Rightarrow>
   (('s, 'f) P135_data_struct \<times> 'f host) option" where
  "P135_new drv fw sensorType' altitude' tempOffset' autoCalibrate' lowPowerMeasurement' useSingleShot' h =
     (let p0 = (members sensorType' altitude' tempOffset' autoCalibrate' lowPowerMeasurement' useSingleShot')
                 \<lparr>scd4x := scd4x_new drv sensorType'\<rparr>
      in if scd4x p0 \<noteq> None then do {
           (detected, p1, h1) \<leftarrow> bus (Begin False (autoCalibrate p0)) (scd4x_begin drv False (autoCalibrate p0)) p0 h;
           if detected then do {
             (orgAltitude, p2, h2) \<leftarrow> bus GetSensorAltitude (scd4x_getSensorAltitude drv) p1 h1;
             (_, p3, h3) \<leftarrow>
               (if altitude p2 \<noteq> 0 then
                  bus (SetSensorAltitude (altitude p2)) (scd4x_setSensorAltitude drv (altitude p2)) p2 h2
                else Some (False, p2, h2));
             (orgTempOffset, p4, h4) \<leftarrow> bus GetTemperatureOffset (scd4x_getTemperatureOffset drv) p3 h3;
             (_, p5, h5) \<leftarrow>
               (if \<not> essentiallyEqual fw (tempOffset p4) (float_zero fw) then
                  bus (SetTemperatureOffset (tempOffset p4)) (scd4x_setTemperatureOffset drv (tempOffset p4)) p4 h4
                else Some (False, p4, h4));
             ((hasSerial, serial), p6, h6) \<leftarrow>
               bus (\<lambda>(ok, buf). GetSerialNumber ok buf) (scd4x_getSerialNumber drv (serialNumber p5)) p5 h5;
             (started, p7, h7) \<leftarrow> startPeriodicMeasurements drv (p6\<lparr>serialNumber := serial\<rparr>) h6;
             Some (p7\<lparr>initialized := started\<rparr>,
                   if loglevelActiveFor_INFO h7 then
                     addLog LOG_LEVEL_INFO (init_log fw started hasSerial serial orgAltitude orgTempOffset) h7
                   else h7)
           } else Some (p1, addLog LOG_LEVEL_ERROR ''SDC4x: Sensor not detected.'' h1)
         }
         else Some (p0, h))"

subsection \<open>plugin_read\<close>

text \<open>
  The re-poll time chosen when no measurement was obtained (the inner \<^verbatim>\<open>else\<close> of the read
  branch).
\<close>

definition retry_delay :: "'f firmware \<Rightarrow> ('s, 'f) P135_data_struct \<Rightarrow> bool \<Rightarrow> 16 word" where
  "retry_delay fw p getMeasure =
     (if getMeasure \<and> \<not> firstRead p then P135_EXTEND_MEASURE_TIME fw
      else if useSingleShot p then P135_SINGLE_SHOT_MEASURE_TIME fw
      else if lowPowerMeasurement p then P135_LOW_POWER_MEASURE_TIME fw
      else P135_NORMAL_MEASURE_TIME fw)"

definition schedule_read :: "EventStruct \<Rightarrow> 16 word \<Rightarrow> 'f host \<Rightarrow> 'f host" where
  "schedule_read event timerDelay h =
     (if timerDelay \<noteq> 0 then
        schedule_task_device_timer (TaskIndex event) (millis h + ucast timerDelay)
          (if loglevelActiveFor_INFO h then
             addLog LOG_LEVEL_INFO
               (''SCD4x: READ Scheduler started: +'' @ String_uint16 timerDelay @ '' ms.'') h
           else h)
      else h)"

text \<open>
  One armed maintenance request of the uninitialized branch: the bus operation, and on
  success the restart of the periodic measurement, the timer and the log line.
\<close>

definition run_maintenance ::
  "('s, 'f) SCD4x \<Rightarrow> 'f firmware \<Rightarrow> EventStruct \<Rightarrow> (bool \<Rightarrow> 'f bus_op) \<Rightarrow> ('s \<Rightarrow> bool \<times> 's) \<Rightarrow>
   string \<Rightarrow> string \<Rightarrow> ('s, 'f) P135_data_struct \<Rightarrow> 'f host \<Rightarrow>
   (bool \<times> ('s, 'f) P135_data_struct \<times> 'f host) option" where
  "run_maintenance drv fw event mk perform msg_ok msg_failed p h = do {
     (success, p1, h1) \<leftarrow> bus mk perform p h;
     if success then do {
       (started, p2, h2) \<leftarrow> startPeriodicMeasurements drv p1 h1;
       Some (success, p2\<lparr>initialized := started\<rparr>,
             addLog LOG_LEVEL_INFO msg_ok
               (schedule_task_device_timer (TaskIndex event)
                  (millis h2 + P135_STOP_MEASUREMENT_DELAY fw) h2))
     } else Some (success, p1, addLog LOG_LEVEL_ERROR msg_failed h1)
   }"

definition plugin_read ::
  "('s, 'f) SCD4x \<Rightarrow> 'f firmware \<Rightarrow> EventStruct \<Rightarrow> ('s, 'f) P135_data_struct \<Rightarrow> 'f host \<Rightarrow>
   (bool \<times> ('s, 'f) P135_data_struct \<times> 'f host) option" where
  "plugin_read drv fw event p h =
     (if isInitialized p then do {
        (shot, p1, h1) \<leftarrow>
          (if useSingleShot p \<and> \<not> singleShotStarted p then
             bus MeasureSingleShot (scd4x_measureSingleShot drv) p h
           else Some (False, p, h));
        let getMeasure = \<not> shot;
        let p2 = (if shot then p1\<lparr>singleShotStarted := True\<rparr> else p1);
        let h2 = (if shot \<and> loglevelActiveFor_INFO h1 then
                    addLog LOG_LEVEL_INFO ''SCD4x: SingleShot measurement started.'' h1
                  else h1);
        (measured, p3, h3) \<leftarrow>
          (if getMeasure then bus ReadMeasurement (scd4x_readMeasurement drv) p2 h2
           else Some (False, p2, h2));
        if measured then do {
          (co2, p4, h4) \<leftarrow> bus GetCO2 (scd4x_getCO2 drv) p3 h3;
          let h4 = h4\<lparr>UserVar := (UserVar h4)(BaseVarIndex event := float_of_uint16 fw co2)\<rparr>;
          (humidity, p5, h5) \<leftarrow> bus GetHumidity (scd4x_getHumidity drv) p4 h4;
          let h5 = h5\<lparr>UserVar := (UserVar h5)(BaseVarIndex event + 1 := humidity)\<rparr>;
          (temperature, p6, h6) \<leftarrow> bus GetTemperature (scd4x_getTemperature drv) p5 h5;
          let h6 = h6\<lparr>UserVar := (UserVar h6)(BaseVarIndex event + 2 := temperature)\<rparr>;
          Some (\<not> firstRead p6, p6\<lparr>singleShotStarted := False, firstRead := False\<rparr>, h6)
        } else
          Some (False, p3, schedule_read event (retry_delay fw p3 getMeasure) h3)
      }
      else if P135_FEATURE_RESET_COMMANDS fw then do {
        (success, p1, h1) \<leftarrow>
          (if mustRunFactoryReset p then
             run_maintenance drv fw event PerformFactoryReset (scd4x_performFactoryReset drv)
               ''SCD4x: Factory reset success.'' ''SCD4x: Factory reset failed!'' p h
           else Some (False, p, h));
        if mustRunSelfTest p1 then
          run_maintenance drv fw event PerformSelfTest (scd4x_performSelfTest drv)
            ''SCD4x: Sensor self-test success.'' ''SCD4x: Sensor self-test failed!'' p1 h1
        else Some (success, p1, h1)
      }
      else Some (False, p, h))"

subsection \<open>plugin_write\<close>

text \<open>The confirmation code of a first invocation, from the cached serial number.\<close>

definition new_code :: "('s, 'f) P135_data_struct \<Rightarrow> bool \<Rightarrow> string" where
  "new_code p doSelftest =
     ''Scd4x'' @
     (if char_at (serialNumber p) 10 \<noteq> CHR 0x00 then
        (if doSelftest then
           [char_at (serialNumber p) 3, char_at (serialNumber p) 1,
            char_at (serialNumber p) 10, char_at (serialNumber p) 6]
         else
           [char_at (serialNumber p) 1, char_at (serialNumber p) 3,
            char_at (serialNumber p) 7, char_at (serialNumber p) 10])
      else ''2022'') @
     (if doSelftest then ''SelF'' else ''reseT'')"

definition plugin_write ::
  "('s, 'f) SCD4x \<Rightarrow> 'f firmware \<Rightarrow> EventStruct \<Rightarrow> string \<Rightarrow> ('s, 'f) P135_data_struct \<Rightarrow> 'f host \<Rightarrow>
   (bool \<times> ('s, 'f) P135_data_struct \<times> 'f host) option" where
  "plugin_write drv fw event string p h =
     (let command = parseString fw string 1 in
      if command = ''scd4x'' then
        let sub = parseString fw string 2;
            doSelftest = (sub = ''selftest'')
        in
        if sub = ''storesettings'' then
          bus PersistSettings (scd4x_persistSettings drv) p h
        else if P135_FEATURE_RESET_COMMANDS fw \<and> (sub = ''factoryreset'' \<or> doSelftest) then
          if factoryResetCode p = [] then
            let p1 = p\<lparr>factoryResetCode := new_code p doSelftest\<rparr> in
            Some (True, p1,
                  addLog LOG_LEVEL_ERROR
                    (''SCD4x: '' @ (if doSelftest then ''Selftest code: '' else ''Factory reset code: '') @
                     factoryResetCode p1) h)
          else
            let code = parseStringKeepCase fw string 3 in
            if code = factoryResetCode p then do {
              let h1 = addLog LOG_LEVEL_ERROR
                         (if doSelftest then ''SCD4x: Selftest starting... (may take up to 11 seconds!)''
                          else ''SCD4x: Factory reset starting... (may take up to 2.5 seconds!)'') h;
              (stopped, p2, h2) \<leftarrow> bus StopPeriodicMeasurement (scd4x_stopPeriodicMeasurement drv) p h1;
              if stopped then
                let p3 = p2\<lparr>initialized := False, firstRead := True\<rparr>;
                    p4 = (if doSelftest then p3\<lparr>mustRunSelfTest := True\<rparr>
                          else p3\<lparr>mustRunFactoryReset := True\<rparr>)
                in Some (True, p4\<lparr>factoryResetCode := []\<rparr>,
                         schedule_task_device_timer (TaskIndex event)
                           (millis h2 + P135_STOP_MEASUREMENT_DELAY fw) h2)
              else Some (False, p2\<lparr>factoryResetCode := []\<rparr>, h2)
            }
            else Some (False, p\<lparr>factoryResetCode := []\<rparr>, h)
        else Some (False, p, h)
      else Some (False, p, h))"

subsection \<open>plugin_get_config_value\<close>

text \<open>The result is the success flag and the string, which is an in-out parameter.\<close>

definition plugin_get_config_value ::
  "('s, 'f) SCD4x \<Rightarrow> 'f firmware \<Rightarrow> EventStruct \<Rightarrow> string \<Rightarrow> ('s, 'f) P135_data_struct \<Rightarrow> 'f host \<Rightarrow>
   ((bool \<times> string) \<times> ('s, 'f) P135_data_struct \<times> 'f host) option" where
  "plugin_get_config_value drv fw event string p h =
     (let var = parseString fw string 1 in
      if var = ''getaltitude'' then do {
        (v, p1, h1) \<leftarrow> bus GetSensorAltitude (scd4x_getSensorAltitude drv) p h;
        Some ((True, String_uint16 v), p1, h1)
      } else if var = ''gettempoffset'' then do {
        (v, p1, h1) \<leftarrow> bus GetTemperatureOffset (scd4x_getTemperatureOffset drv) p h;
        Some ((True, toString fw v 2), p1, h1)
      } else if var = ''getdataready'' then do {
        (v, p1, h1) \<leftarrow> bus GetDataReadyStatus (scd4x_getDataReadyStatus drv) p h;
        Some ((True, String_bool v), p1, h1)
      } else if var = ''getselfcalibration'' then do {
        (v, p1, h1) \<leftarrow>
          bus GetAutomaticSelfCalibrationEnabled (scd4x_getAutomaticSelfCalibrationEnabled drv) p h;
        Some ((True, String_bool v), p1, h1)
      } else Some ((False, string), p, h))"

subsection \<open>Sequences of calls\<close>

text \<open>
  The bus operations performed between two host states, and the calls the host makes on one
  handle, one after the other. A step records a call, the state it found, what it returned
  and the state it left. A call that goes through the null pointer ends the run (\<open>None\<close>).
\<close>

definition performed :: "'f host \<Rightarrow> 'f host \<Rightarrow> 'f bus_op list" where
  "performed h h' = drop (length (wire h)) (wire h')"

datatype call = Read EventStruct | Write EventStruct string

record ('s, 'f) step =
  the_call :: call
  before :: "('s, 'f) P135_data_struct"
  host_before :: "'f host"
  returned :: bool
  after :: "('s, 'f) P135_data_struct"
  host_after :: "'f host"

definition exec ::
  "('s, 'f) SCD4x \<Rightarrow> 'f firmware \<Rightarrow> call \<Rightarrow> ('s, 'f) P135_data_struct \<Rightarrow> 'f host \<Rightarrow>
   (bool \<times> ('s, 'f) P135_data_struct \<times> 'f host) option" where
  "exec drv fw c p h =
     (case c of Read event \<Rightarrow> plugin_read drv fw event p h
              | Write event string \<Rightarrow> plugin_write drv fw event string p h)"

fun run ::
  "('s, 'f) SCD4x \<Rightarrow> 'f firmware \<Rightarrow> call list \<Rightarrow> ('s, 'f) P135_data_struct \<Rightarrow> 'f host \<Rightarrow>
   ('s, 'f) step list option" where
  "run drv fw [] p h = Some []"
| "run drv fw (c # cs) p h =
     (case exec drv fw c p h of
        None \<Rightarrow> None
      | Some (r, p', h') \<Rightarrow>
          (case run drv fw cs p' h' of
             None \<Rightarrow> None
           | Some steps \<Rightarrow>
               Some (\<lparr>the_call = c, before = p, host_before = h, returned = r,
                      after = p', host_after = h'\<rparr> # steps)))"

definition ops :: "('s, 'f) step \<Rightarrow> 'f bus_op list" where
  "ops st = performed (host_before st) (host_after st)"

text \<open>
  The life of one handle: the constructor, then the calls of the host, on the state the
  constructor left.
\<close>

definition construct_and_run ::
  "('s, 'f) SCD4x \<Rightarrow> 'f firmware \<Rightarrow> 8 word \<Rightarrow> 16 word \<Rightarrow> 'f \<Rightarrow> bool \<Rightarrow> bool \<Rightarrow> bool \<Rightarrow> 'f host \<Rightarrow>
   call list \<Rightarrow> ('s, 'f) step list option" where
  "construct_and_run drv fw sensorType' altitude' tempOffset' autoCalibrate' lowPowerMeasurement'
     useSingleShot' h calls =
     (case P135_new drv fw sensorType' altitude' tempOffset' autoCalibrate' lowPowerMeasurement'
             useSingleShot' h of
        None \<Rightarrow> None
      | Some (p, h') \<Rightarrow> run drv fw calls p h')"

text \<open>
  A step obtained a measurement when \<^verbatim>\<open>readMeasurement\<close> succeeded in it. The sample is
  written when the step is a read whose last four bus operations are the successful
  \<^verbatim>\<open>readMeasurement\<close> and the three getters, and the three output slots of the task hold what
  the getters returned.
\<close>

definition measured :: "('s, 'f) step \<Rightarrow> bool" where
  "measured st \<longleftrightarrow> ReadMeasurement True \<in> set (ops st)"

definition sample_written :: "'f firmware \<Rightarrow> ('s, 'f) step \<Rightarrow> bool" where
  "sample_written fw st =
     (case the_call st of
        Write event string \<Rightarrow> False
      | Read event \<Rightarrow>
          (case rev (ops st) of
             GetTemperature temperature # GetHumidity humidity # GetCO2 co2 # ReadMeasurement True # _ \<Rightarrow>
               UserVar (host_after st) (BaseVarIndex event) = float_of_uint16 fw co2 \<and>
               UserVar (host_after st) (BaseVarIndex event + 1) = humidity \<and>
               UserVar (host_after st) (BaseVarIndex event + 2) = temperature
           | _ \<Rightarrow> False))"

text \<open>
  What the steps of a run did. A step performs a maintenance operation when
  \<^verbatim>\<open>performSelfTest\<close> (for \<open>doSelftest\<close>) or \<^verbatim>\<open>performFactoryReset\<close> (otherwise) is among its bus
  operations; the operation is armed in a state whose pending flag is set. A step generates
  a code when it is a successful \<^verbatim>\<open>scd4x,factoryreset\<close> or \<^verbatim>\<open>scd4x,selftest\<close> command that
  found no code on file and left the derived one. A step confirms an operation when it is
  that operation's command, found a code on file, carried that code as its third token,
  stopped the periodic measurement successfully and returned success.
\<close>

definition performs :: "bool \<Rightarrow> ('s, 'f) step \<Rightarrow> bool" where
  "performs doSelftest st =
     (if doSelftest then
        PerformSelfTest True \<in> set (ops st) \<or> PerformSelfTest False \<in> set (ops st)
      else PerformFactoryReset True \<in> set (ops st) \<or> PerformFactoryReset False \<in> set (ops st))"

definition armed :: "bool \<Rightarrow> ('s, 'f) P135_data_struct \<Rightarrow> bool" where
  "armed doSelftest p = (if doSelftest then mustRunSelfTest p else mustRunFactoryReset p)"

definition generates :: "'f firmware \<Rightarrow> ('s, 'f) step \<Rightarrow> bool" where
  "generates fw st =
     (case the_call st of
        Read event \<Rightarrow> False
      | Write event string \<Rightarrow>
          parseString fw string 1 = ''scd4x'' \<and>
          (parseString fw string 2 = ''factoryreset'' \<or> parseString fw string 2 = ''selftest'') \<and>
          factoryResetCode (before st) = [] \<and>
          factoryResetCode (after st) =
            new_code (before st) (parseString fw string 2 = ''selftest'') \<and>
          returned st)"

definition confirms :: "'f firmware \<Rightarrow> bool \<Rightarrow> ('s, 'f) step \<Rightarrow> bool" where
  "confirms fw doSelftest st =
     (case the_call st of
        Read event \<Rightarrow> False
      | Write event string \<Rightarrow>
          parseString fw string 1 = ''scd4x'' \<and>
          parseString fw string 2 = (if doSelftest then ''selftest'' else ''factoryreset'') \<and>
          factoryResetCode (before st) \<noteq> [] \<and>
          parseStringKeepCase fw string 3 = factoryResetCode (before st) \<and>
          StopPeriodicMeasurement True \<in> set (ops st) \<and>
          returned st)"

subsection \<open>A scripted sensor and a small firmware, for the examples\<close>

text \<open>
  The examples run the operations on a driver whose object is a script: the list of the answers
  it will give to the calls that return a \<^verbatim>\<open>bool\<close>, in call order (\<open>False\<close> once the script is
  used up). A float of the examples is an integer. The tokens of a command are its
  comma-separated parts, in lower case for \<open>parseString\<close>.
\<close>

definition answer :: "bool list \<Rightarrow> bool \<times> bool list" where
  "answer script = (case script of [] \<Rightarrow> (False, []) | b # bs \<Rightarrow> (b, bs))"

definition scripted :: "bool list \<Rightarrow> (bool list, int) SCD4x" where
  "scripted script =
     \<lparr> scd4x_new = (\<lambda>_. Some script),
       scd4x_begin = (\<lambda>_ _. answer),
       scd4x_getSensorAltitude = (\<lambda>s. (0, s)),
       scd4x_setSensorAltitude = (\<lambda>_. answer),
       scd4x_getTemperatureOffset = (\<lambda>s. (4, s)),
       scd4x_setTemperatureOffset = (\<lambda>_. answer),
       scd4x_getSerialNumber =
         (\<lambda>buf s. case answer s of (ok, s') \<Rightarrow> ((ok, if ok then ''0123456789ab'' else buf), s')),
       scd4x_startLowPowerPeriodicMeasurement = answer,
       scd4x_startPeriodicMeasurement = answer,
       scd4x_stopPeriodicMeasurement = answer,
       scd4x_measureSingleShot = answer,
       scd4x_readMeasurement = answer,
       scd4x_getCO2 = (\<lambda>s. (415, s)),
       scd4x_getHumidity = (\<lambda>s. (50, s)),
       scd4x_getTemperature = (\<lambda>s. (21, s)),
       scd4x_persistSettings = answer,
       scd4x_performFactoryReset = answer,
       scd4x_performSelfTest = answer,
       scd4x_getDataReadyStatus = answer,
       scd4x_getAutomaticSelfCalibrationEnabled = answer \<rparr>"

fun split_on :: "char \<Rightarrow> string \<Rightarrow> string list" where
  "split_on c [] = [[]]"
| "split_on c (x # xs) =
     (if x = c then [] # split_on c xs
      else (case split_on c xs of [] \<Rightarrow> [[x]] | t # ts \<Rightarrow> (x # t) # ts))"

definition token :: "string \<Rightarrow> nat \<Rightarrow> string" where
  "token s n =
     (let ts = split_on (CHR '','') s in if 0 < n \<and> n \<le> length ts then ts ! (n - 1) else [])"

definition lower :: "char \<Rightarrow> char" where
  "lower c =
     (if 65 \<le> (of_char c :: nat) \<and> (of_char c :: nat) \<le> 90 then char_of (of_char c + 32 :: nat)
      else c)"

definition demo_fw :: "int firmware" where
  "demo_fw =
     \<lparr> parseString = (\<lambda>s n. map lower (token s n)),
       parseStringKeepCase = token,
       essentiallyEqual = (=),
       toString = (\<lambda>v n. String_nat (nat v) @ ''.'' @ replicate n (CHR ''0'')),
       float_of_uint16 = uint,
       float_zero = 0,
       P135_FEATURE_RESET_COMMANDS = True,
       P135_STOP_MEASUREMENT_DELAY = 550,
       P135_EXTEND_MEASURE_TIME = 1000,
       P135_SINGLE_SHOT_MEASURE_TIME = 5000,
       P135_LOW_POWER_MEASURE_TIME = 30000,
       P135_NORMAL_MEASURE_TIME = 5000 \<rparr>"

definition demo_host :: "int host" where
  "demo_host = \<lparr> UserVar = (\<lambda>_. 0), millis = 1000, timers = [], loglevelActiveFor_INFO = True,
                 logged = [], wire = [] \<rparr>"

definition demo_event :: EventStruct where
  "demo_event = \<lparr> TaskIndex = 2, BaseVarIndex = 8 \<rparr>"

text \<open>
  The handle of the examples: what the constructor leaves when the scripted sensor is
  detected, gives its serial number and starts its periodic measurement; two answers are
  left in its script.
\<close>

definition demo_handle :: "(bool list, int) P135_data_struct" where
  "demo_handle =
     (members 0 0 0 True False False)
       \<lparr>scd4x := Some [True, True], serialNumber := ''0123456789ab'', initialized := True\<rparr>"

text \<open>
  A handle in single-shot mode after its first read, and a sensor that will reject the next
  single-shot request and then deliver a measurement.
\<close>

definition cx6_before :: "(bool list, int) P135_data_struct" where
  "cx6_before =
     (members 0 0 0 True False True)
       \<lparr>scd4x := Some [False, True], serialNumber := ''0123456789ab'', initialized := True,
        firstRead := False\<rparr>"

definition cx6_after :: "(bool list, int) P135_data_struct" where
  "cx6_after = cx6_before\<lparr>scd4x := Some []\<rparr>"

definition cx6_host_after :: "int host" where
  "cx6_host_after =
     demo_host\<lparr>wire := [MeasureSingleShot False, ReadMeasurement True, GetCO2 415, GetHumidity 50,
                         GetTemperature 21],
               UserVar := (\<lambda>_. 0)(8 := 415, 9 := 50, 10 := 21)\<rparr>"

text \<open>
  The handle and the host that the constructor leaves when the scripted sensor does not
  answer the probe; the script has one positive answer left.
\<close>

definition cx3_handle :: "(bool list, int) P135_data_struct" where
  "cx3_handle = (members 0 0 0 True False False)\<lparr>scd4x := Some [True]\<rparr>"

definition cx3_host :: "int host" where
  "cx3_host = demo_host\<lparr>wire := [Begin False True False],
                         logged := [(LOG_LEVEL_ERROR, ''SDC4x: Sensor not detected.'')]\<rparr>"

text \<open>
  A sensor that answers every request positively, and the commands of an operator who
  confirms a factory reset and, after it has run, confirms a self-test.
\<close>

definition cx4_sensor :: "(bool list, int) SCD4x" where
  "cx4_sensor = scripted [True, True, True, True, True, True, True, True, True, True, True]"

definition cx4_calls :: "call list" where
  "cx4_calls =
     [Write demo_event ''scd4x,factoryreset'',
      Write demo_event ''scd4x,factoryreset,Scd4x137areseT'',
      Read demo_event,
      Write demo_event ''scd4x,selftest'',
      Write demo_event ''scd4x,selftest,Scd4x31a6SelF'',
      Read demo_event]"

section \<open>Properties\<close>

subsection \<open>Basic facts\<close>

lemma bus_Some:
  "scd4x p = Some s \<Longrightarrow>
   bus mk f p h =
     Some (fst (f s), p\<lparr>scd4x := Some (snd (f s))\<rparr>, h\<lparr>wire := wire h @ [mk (fst (f s))]\<rparr>)"
  by (simp add: bus_def split: prod.splits)

lemma performed_append [simp]: "performed h (h\<lparr>wire := wire h @ xs\<rparr>) = xs"
  by (simp add: performed_def)

lemma performed_same [simp]: "performed h h = []"
  by (simp add: performed_def)

lemma retry_delay_scd4x [simp]: "retry_delay fw (p\<lparr>scd4x := x\<rparr>) g = retry_delay fw p g"
  by (simp add: retry_delay_def)

lemma addLog_fields [simp]:
  "wire (addLog l m h) = wire h"
  "UserVar (addLog l m h) = UserVar h"
  "millis (addLog l m h) = millis h"
  "timers (addLog l m h) = timers h"
  "logged (addLog l m h) = logged h @ [(l, m)]"
  "loglevelActiveFor_INFO (addLog l m h) = loglevelActiveFor_INFO h"
  by (simp_all add: addLog_def)

lemma schedule_fields [simp]:
  "wire (schedule_task_device_timer task t h) = wire h"
  "UserVar (schedule_task_device_timer task t h) = UserVar h"
  "millis (schedule_task_device_timer task t h) = millis h"
  "timers (schedule_task_device_timer task t h) = timers h @ [(task, t)]"
  "logged (schedule_task_device_timer task t h) = logged h"
  by (simp_all add: schedule_task_device_timer_def)

lemma schedule_read_fields [simp]:
  "wire (schedule_read event d h) = wire h"
  "UserVar (schedule_read event d h) = UserVar h"
  "millis (schedule_read event d h) = millis h"
  "timers (schedule_read event d h) =
     (if d = 0 then timers h else timers h @ [(TaskIndex event, millis h + ucast d)])"
  by (simp_all add: schedule_read_def schedule_task_device_timer_def addLog_def)

subsection \<open>The paths of plugin_read and plugin_write\<close>

lemma plugin_read_trigger_ok:
  assumes "initialized p" and "scd4x p = Some s" and "useSingleShot p" and "\<not> singleShotStarted p"
    and "scd4x_measureSingleShot drv s = (True, s1)"
  shows "plugin_read drv fw event p h =
           Some (False, p\<lparr>scd4x := Some s1, singleShotStarted := True\<rparr>,
                 schedule_read event (P135_SINGLE_SHOT_MEASURE_TIME fw)
                   (if loglevelActiveFor_INFO h then
                      addLog LOG_LEVEL_INFO ''SCD4x: SingleShot measurement started.''
                        (h\<lparr>wire := wire h @ [MeasureSingleShot True]\<rparr>)
                    else h\<lparr>wire := wire h @ [MeasureSingleShot True]\<rparr>))"
  using assms
  by (simp add: plugin_read_def isInitialized_def bus_def Let_def retry_delay_def)

lemma plugin_read_measure:
  assumes "initialized p" and "scd4x p = Some s"
    and "if useSingleShot p \<and> \<not> singleShotStarted p
         then scd4x_measureSingleShot drv s = (False, s1) \<and> pre = [MeasureSingleShot False]
         else s1 = s \<and> pre = []"
    and "scd4x_readMeasurement drv s1 = (m, s2)"
    and "scd4x_getCO2 drv s2 = (co2, s3)"
    and "scd4x_getHumidity drv s3 = (humidity, s4)"
    and "scd4x_getTemperature drv s4 = (temperature, s5)"
  shows "plugin_read drv fw event p h =
           (if m then
              Some (\<not> firstRead p,
                    p\<lparr>scd4x := Some s5, singleShotStarted := False, firstRead := False\<rparr>,
                    h\<lparr>wire := wire h @ pre @
                         [ReadMeasurement True, GetCO2 co2, GetHumidity humidity, GetTemperature temperature],
                      UserVar := (UserVar h)
                         (BaseVarIndex event := float_of_uint16 fw co2,
                          BaseVarIndex event + 1 := humidity,
                          BaseVarIndex event + 2 := temperature)\<rparr>)
            else
              Some (False, p\<lparr>scd4x := Some s2\<rparr>,
                    schedule_read event (retry_delay fw p True)
                      (h\<lparr>wire := wire h @ pre @ [ReadMeasurement False]\<rparr>)))"
  using assms
  by (cases "useSingleShot p"; cases "singleShotStarted p")
     (simp_all add: plugin_read_def isInitialized_def bus_def Let_def)

lemma write_first_invocation:
  assumes "P135_FEATURE_RESET_COMMANDS fw"
    and "parseString fw string 1 = ''scd4x''"
    and "parseString fw string 2 = ''factoryreset'' \<or> parseString fw string 2 = ''selftest''"
    and "factoryResetCode p = []"
  shows "plugin_write drv fw event string p h =
           Some (True, p\<lparr>factoryResetCode := new_code p (parseString fw string 2 = ''selftest'')\<rparr>,
                 addLog LOG_LEVEL_ERROR
                   (''SCD4x: '' @
                    (if parseString fw string 2 = ''selftest'' then ''Selftest code: ''
                     else ''Factory reset code: '') @
                    new_code p (parseString fw string 2 = ''selftest'')) h)"
  using assms by (auto simp add: plugin_write_def Let_def)

lemma new_code_not_empty: "new_code p d \<noteq> []"
  by (simp add: new_code_def)

lemma write_second_invocation:
  assumes "P135_FEATURE_RESET_COMMANDS fw"
    and "parseString fw string 1 = ''scd4x''"
    and "parseString fw string 2 = ''factoryreset'' \<or> parseString fw string 2 = ''selftest''"
    and "factoryResetCode p \<noteq> []"
    and "scd4x p = Some s"
  shows "plugin_write drv fw event string p h =
          (if parseStringKeepCase fw string 3 = factoryResetCode p then
             (let stopped = fst (scd4x_stopPeriodicMeasurement drv s);
                  p2 = p\<lparr>scd4x := Some (snd (scd4x_stopPeriodicMeasurement drv s))\<rparr>;
                  h2 = (addLog LOG_LEVEL_ERROR
                         (if parseString fw string 2 = ''selftest''
                          then ''SCD4x: Selftest starting... (may take up to 11 seconds!)''
                          else ''SCD4x: Factory reset starting... (may take up to 2.5 seconds!)'') h)
                       \<lparr>wire := wire h @ [StopPeriodicMeasurement stopped]\<rparr>
              in if stopped then
                   Some (True,
                         (if parseString fw string 2 = ''selftest''
                          then p2\<lparr>initialized := False, firstRead := True, mustRunSelfTest := True\<rparr>
                          else p2\<lparr>initialized := False, firstRead := True, mustRunFactoryReset := True\<rparr>)
                           \<lparr>factoryResetCode := []\<rparr>,
                         schedule_task_device_timer (TaskIndex event)
                           (millis h + P135_STOP_MEASUREMENT_DELAY fw) h2)
                 else Some (False, p2\<lparr>factoryResetCode := []\<rparr>, h2))
           else Some (False, p\<lparr>factoryResetCode := []\<rparr>, h))"
  using assms
  by (auto simp add: plugin_write_def Let_def bus_def addLog_def split: prod.splits)

lemma plugin_read_initialized_step:
  assumes "initialized p" and "scd4x p = Some s"
  shows "\<exists>r p' h'.
           plugin_read drv fw event p h = Some (r, p', h') \<and>
           initialized p' \<and> scd4x p' \<noteq> None \<and>
           (if ReadMeasurement True \<in> set (performed h h') then
              r = (\<not> firstRead p) \<and> \<not> firstRead p' \<and>
              sample_written fw \<lparr>the_call = Read event, before = p, host_before = h, returned = r,
                                 after = p', host_after = h'\<rparr>
            else \<not> r \<and> firstRead p' = firstRead p)"
proof -
  obtain t s1 where t: "scd4x_measureSingleShot drv s = (t, s1)"
    by (cases "scd4x_measureSingleShot drv s")
  show ?thesis
  proof (cases "useSingleShot p \<and> \<not> singleShotStarted p \<and> t")
    case True
    then show ?thesis
      using plugin_read_trigger_ok [OF assms, where drv = drv and ?s1.0 = s1
          and fw = fw and event = event and h = h] t assms
      by (auto simp add: performed_def)
  next
    case False
    define s1' where "s1' = (if useSingleShot p \<and> \<not> singleShotStarted p then s1 else s)"
    define pre :: "'b bus_op list" where
      "pre = (if useSingleShot p \<and> \<not> singleShotStarted p then [MeasureSingleShot False] else [])"
    obtain m s2 where m: "scd4x_readMeasurement drv s1' = (m, s2)"
      by (cases "scd4x_readMeasurement drv s1'")
    obtain co2 s3 where c: "scd4x_getCO2 drv s2 = (co2, s3)"
      by (cases "scd4x_getCO2 drv s2")
    obtain hu s4 where u: "scd4x_getHumidity drv s3 = (hu, s4)"
      by (cases "scd4x_getHumidity drv s3")
    obtain te s5 where e: "scd4x_getTemperature drv s4 = (te, s5)"
      by (cases "scd4x_getTemperature drv s4")
    have g: "if useSingleShot p \<and> \<not> singleShotStarted p
         then scd4x_measureSingleShot drv s = (False, s1') \<and> pre = [MeasureSingleShot False]
         else s1' = s \<and> pre = []"
      using False t by (auto simp add: s1'_def pre_def)
    have n: "ReadMeasurement True \<notin> set pre"
      by (simp add: pre_def)
    show ?thesis
      using plugin_read_measure [OF assms g m c u e, where fw = fw and event = event and h = h] n assms
      by (cases m) (auto simp add: performed_def sample_written_def ops_def)
  qed
qed

lemma reads_run:
  assumes "initialized p" and "scd4x p \<noteq> None"
  shows "\<exists>steps.
           run drv fw (map Read events) p h = Some steps \<and> length steps = length events \<and>
           (\<forall>k<length steps. measured (steps ! k) \<longrightarrow>
              returned (steps ! k) = (\<not> firstRead p \<or> (\<exists>j<k. measured (steps ! j))) \<and>
              sample_written fw (steps ! k))"
  using assms
proof (induction events arbitrary: p h)
  case Nil
  then show ?case by simp
next
  case (Cons event events)
  from Cons.prems obtain s where s: "scd4x p = Some s" by auto
  from plugin_read_initialized_step [OF Cons.prems(1) s, where drv = drv and fw = fw and event = event and h = h]
  obtain r p' h' where
    e: "plugin_read drv fw event p h = Some (r, p', h')"
    and i: "initialized p'" and n: "scd4x p' \<noteq> None"
    and b: "if ReadMeasurement True \<in> set (performed h h') then
              r = (\<not> firstRead p) \<and> \<not> firstRead p' \<and>
              sample_written fw \<lparr>the_call = Read event, before = p, host_before = h, returned = r,
                                 after = p', host_after = h'\<rparr>
            else \<not> r \<and> firstRead p' = firstRead p"
    by blast
  let ?st = "\<lparr>the_call = Read event, before = p, host_before = h, returned = r,
              after = p', host_after = h'\<rparr>"
  from Cons.IH [OF i n, of h'] obtain steps where
    r: "run drv fw (map Read events) p' h' = Some steps"
    and l: "length steps = length events"
    and a: "\<forall>k<length steps. measured (steps ! k) \<longrightarrow>
              returned (steps ! k) = (\<not> firstRead p' \<or> (\<exists>j<k. measured (steps ! j))) \<and>
              sample_written fw (steps ! k)"
    by blast
  have run: "run drv fw (map Read (event # events)) p h = Some (?st # steps)"
    using e r by (simp add: exec_def)
  have m0: "measured ?st \<longleftrightarrow> ReadMeasurement True \<in> set (performed h h')"
    by (simp add: measured_def ops_def)
  have "returned ((?st # steps) ! k) = (\<not> firstRead p \<or> (\<exists>j<k. measured ((?st # steps) ! j))) \<and>
        sample_written fw ((?st # steps) ! k)"
    if k: "k < length (?st # steps)" and m: "measured ((?st # steps) ! k)" for k
  proof (cases k)
    case 0
    with m b m0 show ?thesis by auto
  next
    case (Suc k')
    with k m a have x: "returned (steps ! k') = (\<not> firstRead p' \<or> (\<exists>j<k'. measured (steps ! j)))"
      and y: "sample_written fw (steps ! k')"
      by auto
    have z: "(\<exists>j<Suc k'. measured ((?st # steps) ! j)) \<longleftrightarrow>
             measured ?st \<or> (\<exists>j<k'. measured (steps ! j))"
      by (auto simp add: less_Suc_eq_0_disj)
    have w: "\<not> firstRead p' \<longleftrightarrow> \<not> firstRead p \<or> measured ?st"
      using b m0 by (auto split: if_splits)
    show ?thesis
      using x y z w Suc by auto
  qed
  with run l show ?case by auto
qed

text \<open>
  A command leaves the read cycle's flags and the output slots alone, unless it is a
  confirmed maintenance command that stops the periodic measurement.
\<close>

lemma plugin_write_keeps_read_state:
  assumes "plugin_write drv fw event string p h = Some (r, p', h')"
    and "StopPeriodicMeasurement True \<notin> set (performed h h')"
  shows "initialized p' = initialized p \<and> firstRead p' = firstRead p \<and>
         singleShotStarted p' = singleShotStarted p \<and> UserVar h' = UserVar h"
proof (cases "parseString fw string 1 = ''scd4x''")
  case False
  with assms show ?thesis by (simp add: plugin_write_def)
next
  case cmd: True
  show ?thesis
  proof (cases "parseString fw string 2 = ''storesettings''")
    case True
    with cmd assms show ?thesis
      by (auto simp add: plugin_write_def Let_def bus_def split: option.splits prod.splits)
  next
    case nostore: False
    show ?thesis
    proof (cases "P135_FEATURE_RESET_COMMANDS fw \<and>
        (parseString fw string 2 = ''factoryreset'' \<or> parseString fw string 2 = ''selftest'')")
      case False
      with cmd nostore assms show ?thesis
        by (auto simp add: plugin_write_def Let_def)
    next
      case gate: True
      show ?thesis
      proof (cases "factoryResetCode p = []")
        case True
        from write_first_invocation [OF gate [THEN conjunct1] cmd gate [THEN conjunct2] True,
            where drv = drv and event = event and h = h] assms
        show ?thesis by auto
      next
        case code: False
        show ?thesis
        proof (cases "parseStringKeepCase fw string 3 = factoryResetCode p")
          case False
          with cmd nostore gate code assms show ?thesis
            by (auto simp add: plugin_write_def Let_def)
        next
          case match: True
          from assms cmd nostore gate code match obtain s where s: "scd4x p = Some s"
            by (cases "scd4x p") (auto simp add: plugin_write_def Let_def bus_def)
          from write_second_invocation [OF gate [THEN conjunct1] cmd gate [THEN conjunct2] code s,
              where drv = drv and event = event and h = h] assms match
          show ?thesis
            by (cases "fst (scd4x_stopPeriodicMeasurement drv s)")
               (auto simp add: Let_def performed_def)
        qed
      qed
    qed
  qed
qed

text \<open>
  The constructor leaves no maintenance request pending, no code on file and the first-read
  flag armed, whether or not it found the sensor.
\<close>

lemma P135_new_maintenance_state:
  assumes "P135_new drv fw sensorType' altitude' tempOffset' autoCalibrate' lowPowerMeasurement'
             useSingleShot' h = Some (p, h')"
  shows "\<not> mustRunFactoryReset p \<and> \<not> mustRunSelfTest p \<and> factoryResetCode p = [] \<and> firstRead p"
proof (cases "scd4x_new drv sensorType'")
  case None
  with assms show ?thesis
    by (auto simp add: P135_new_def Let_def members_def)
next
  case (Some s0)
  obtain d s1 where b: "scd4x_begin drv False autoCalibrate' s0 = (d, s1)"
    by (cases "scd4x_begin drv False autoCalibrate' s0")
  show ?thesis
  proof (cases d)
    case False
    with assms Some b show ?thesis
      by (auto simp add: P135_new_def Let_def members_def bus_def)
  next
    case True
    with assms Some b show ?thesis
      by (cases "altitude' = 0"; cases "essentiallyEqual fw tempOffset' (float_zero fw)";
          cases useSingleShot'; cases lowPowerMeasurement')
         (auto simp add: P135_new_def members_def bus_def Let_def startPeriodicMeasurements_def
            split: prod.splits)
  qed
qed

subsection \<open>What one call can do to the maintenance state\<close>

lemma run_maintenance_step:
  assumes "run_maintenance drv fw event mk perform msg_ok msg_failed p h = Some (r, p', h')"
  shows "mustRunFactoryReset p' = mustRunFactoryReset p \<and> mustRunSelfTest p' = mustRunSelfTest p \<and>
         factoryResetCode p' = factoryResetCode p \<and>
         (\<exists>b ws. wire h' = wire h @ mk b # ws \<and>
            set ws \<subseteq> {StartLowPowerPeriodicMeasurement True, StartLowPowerPeriodicMeasurement False,
                      StartPeriodicMeasurement True, StartPeriodicMeasurement False})"
  using assms
  by (auto simp add: run_maintenance_def startPeriodicMeasurements_def bus_def
      split: option.splits prod.splits if_splits Option.bind_splits)

lemma plugin_read_uninitialized_step:
  assumes "\<not> isInitialized p" and "plugin_read drv fw event p h = Some (r, p', h')"
  shows "mustRunFactoryReset p' = mustRunFactoryReset p \<and> mustRunSelfTest p' = mustRunSelfTest p \<and>
         factoryResetCode p' = factoryResetCode p \<and>
         (\<exists>ws. wire h' = wire h @ ws \<and>
            (\<forall>b. PerformFactoryReset b \<in> set ws \<longrightarrow> mustRunFactoryReset p) \<and>
            (\<forall>b. PerformSelfTest b \<in> set ws \<longrightarrow> mustRunSelfTest p))"
proof (cases "P135_FEATURE_RESET_COMMANDS fw")
  case False
  with assms show ?thesis by (simp add: plugin_read_def)
next
  case True
  let ?fr = "run_maintenance drv fw event PerformFactoryReset (scd4x_performFactoryReset drv)
               ''SCD4x: Factory reset success.'' ''SCD4x: Factory reset failed!''"
  let ?st = "run_maintenance drv fw event PerformSelfTest (scd4x_performSelfTest drv)
               ''SCD4x: Sensor self-test success.'' ''SCD4x: Sensor self-test failed!''"
  obtain r1 p1 h1 where
    a: "(if mustRunFactoryReset p then ?fr p h else Some (False, p, h)) = Some (r1, p1, h1)"
    and b: "(if mustRunSelfTest p1 then ?st p1 h1 else Some (r1, p1, h1)) = Some (r, p', h')"
    using assms True by (auto simp add: plugin_read_def split: Option.bind_splits)
  have 1: "mustRunFactoryReset p1 = mustRunFactoryReset p \<and> mustRunSelfTest p1 = mustRunSelfTest p \<and>
         factoryResetCode p1 = factoryResetCode p \<and>
         (\<exists>ws. wire h1 = wire h @ ws \<and>
            (\<forall>b. PerformFactoryReset b \<in> set ws \<longrightarrow> mustRunFactoryReset p) \<and>
            (\<forall>b. PerformSelfTest b \<notin> set ws))"
  proof (cases "mustRunFactoryReset p")
    case True
    with a have "?fr p h = Some (r1, p1, h1)" by simp
    from run_maintenance_step [OF this] True show ?thesis by auto
  next
    case False
    with a show ?thesis by simp
  qed
  have 2: "mustRunFactoryReset p' = mustRunFactoryReset p1 \<and> mustRunSelfTest p' = mustRunSelfTest p1 \<and>
         factoryResetCode p' = factoryResetCode p1 \<and>
         (\<exists>ws. wire h' = wire h1 @ ws \<and>
            (\<forall>b. PerformFactoryReset b \<notin> set ws) \<and>
            (\<forall>b. PerformSelfTest b \<in> set ws \<longrightarrow> mustRunSelfTest p1))"
  proof (cases "mustRunSelfTest p1")
    case True
    with b have "?st p1 h1 = Some (r, p', h')" by simp
    from run_maintenance_step [OF this] True show ?thesis by auto
  next
    case False
    with b show ?thesis by simp
  qed
  from 1 obtain ws1 where w1: "wire h1 = wire h @ ws1"
    and f1: "\<forall>b. PerformFactoryReset b \<in> set ws1 \<longrightarrow> mustRunFactoryReset p"
    and t1: "\<forall>b. PerformSelfTest b \<notin> set ws1"
    by blast
  from 2 obtain ws2 where w2: "wire h' = wire h1 @ ws2"
    and f2: "\<forall>b. PerformFactoryReset b \<notin> set ws2"
    and t2: "\<forall>b. PerformSelfTest b \<in> set ws2 \<longrightarrow> mustRunSelfTest p1"
    by blast
  have e: "mustRunFactoryReset p' = mustRunFactoryReset p" "mustRunSelfTest p' = mustRunSelfTest p"
    "factoryResetCode p' = factoryResetCode p"
    using 1 2 by simp_all
  have "wire h' = wire h @ (ws1 @ ws2) \<and>
        (\<forall>b. PerformFactoryReset b \<in> set (ws1 @ ws2) \<longrightarrow> mustRunFactoryReset p) \<and>
        (\<forall>b. PerformSelfTest b \<in> set (ws1 @ ws2) \<longrightarrow> mustRunSelfTest p)"
    using w1 w2 f1 f2 t1 t2 1 by auto
  then have "\<exists>ws. wire h' = wire h @ ws \<and>
            (\<forall>b. PerformFactoryReset b \<in> set ws \<longrightarrow> mustRunFactoryReset p) \<and>
            (\<forall>b. PerformSelfTest b \<in> set ws \<longrightarrow> mustRunSelfTest p)"
    by (rule exI)
  with e show ?thesis by simp
qed

lemma plugin_read_initialized_frame:
  assumes "isInitialized p" and "plugin_read drv fw event p h = Some (r, p', h')"
  shows "mustRunFactoryReset p' = mustRunFactoryReset p \<and> mustRunSelfTest p' = mustRunSelfTest p \<and>
         factoryResetCode p' = factoryResetCode p \<and>
         (\<exists>ws. wire h' = wire h @ ws \<and>
            (\<forall>b. PerformFactoryReset b \<notin> set ws) \<and> (\<forall>b. PerformSelfTest b \<notin> set ws))"
proof -
  from assms(1) obtain s where s: "scd4x p = Some s" and i: "initialized p"
    by (auto simp add: isInitialized_def)
  obtain t s1 where t: "scd4x_measureSingleShot drv s = (t, s1)"
    by (cases "scd4x_measureSingleShot drv s")
  show ?thesis
  proof (cases "useSingleShot p \<and> \<not> singleShotStarted p \<and> t")
    case True
    then show ?thesis
      using plugin_read_trigger_ok [OF i s, where drv = drv and ?s1.0 = s1
          and fw = fw and event = event and h = h] t assms(2)
      by auto
  next
    case False
    define s1' where "s1' = (if useSingleShot p \<and> \<not> singleShotStarted p then s1 else s)"
    define pre :: "'b bus_op list" where
      "pre = (if useSingleShot p \<and> \<not> singleShotStarted p then [MeasureSingleShot False] else [])"
    obtain m s2 where m: "scd4x_readMeasurement drv s1' = (m, s2)"
      by (cases "scd4x_readMeasurement drv s1'")
    obtain co2 s3 where c: "scd4x_getCO2 drv s2 = (co2, s3)"
      by (cases "scd4x_getCO2 drv s2")
    obtain hu s4 where u: "scd4x_getHumidity drv s3 = (hu, s4)"
      by (cases "scd4x_getHumidity drv s3")
    obtain te s5 where e: "scd4x_getTemperature drv s4 = (te, s5)"
      by (cases "scd4x_getTemperature drv s4")
    have g: "if useSingleShot p \<and> \<not> singleShotStarted p
         then scd4x_measureSingleShot drv s = (False, s1') \<and> pre = [MeasureSingleShot False]
         else s1' = s \<and> pre = []"
      using False t by (auto simp add: s1'_def pre_def)
    show ?thesis
      using plugin_read_measure [OF i s g m c u e, where fw = fw and event = event and h = h] assms(2)
      by (cases m) (auto simp add: pre_def)
  qed
qed

lemma plugin_write_step:
  assumes "plugin_write drv fw event string p h = Some (r, p', h')"
  shows "\<exists>ws. wire h' = wire h @ ws \<and>
           (\<forall>b. PerformFactoryReset b \<notin> set ws) \<and> (\<forall>b. PerformSelfTest b \<notin> set ws) \<and>
           (\<forall>d. armed d p' \<longrightarrow>
              armed d p \<or>
              parseString fw string 1 = ''scd4x'' \<and>
              parseString fw string 2 = (if d then ''selftest'' else ''factoryreset'') \<and>
              factoryResetCode p \<noteq> [] \<and> parseStringKeepCase fw string 3 = factoryResetCode p \<and>
              StopPeriodicMeasurement True \<in> set ws \<and> r) \<and>
           (factoryResetCode p' \<noteq> [] \<longrightarrow>
              factoryResetCode p' = factoryResetCode p \<or>
              parseString fw string 1 = ''scd4x'' \<and>
              (parseString fw string 2 = ''factoryreset'' \<or> parseString fw string 2 = ''selftest'') \<and>
              factoryResetCode p = [] \<and>
              factoryResetCode p' = new_code p (parseString fw string 2 = ''selftest'') \<and> r)"
proof (cases "parseString fw string 1 = ''scd4x''")
  case False
  with assms show ?thesis by (simp add: plugin_write_def)
next
  case cmd: True
  show ?thesis
  proof (cases "parseString fw string 2 = ''storesettings''")
    case True
    with cmd assms show ?thesis
      by (auto simp add: plugin_write_def Let_def bus_def armed_def split: option.splits prod.splits)
  next
    case nostore: False
    show ?thesis
    proof (cases "P135_FEATURE_RESET_COMMANDS fw \<and>
        (parseString fw string 2 = ''factoryreset'' \<or> parseString fw string 2 = ''selftest'')")
      case False
      with cmd nostore assms show ?thesis
        by (auto simp add: plugin_write_def Let_def)
    next
      case gate: True
      show ?thesis
      proof (cases "factoryResetCode p = []")
        case True
        from write_first_invocation [OF gate [THEN conjunct1] cmd gate [THEN conjunct2] True,
            where drv = drv and event = event and h = h] assms cmd gate True
        show ?thesis
          by (auto simp add: armed_def)
      next
        case code: False
        show ?thesis
        proof (cases "parseStringKeepCase fw string 3 = factoryResetCode p")
          case False
          with cmd nostore gate code assms show ?thesis
            by (auto simp add: plugin_write_def Let_def armed_def)
        next
          case match: True
          from assms cmd nostore gate code match obtain s where s: "scd4x p = Some s"
            by (cases "scd4x p") (auto simp add: plugin_write_def Let_def bus_def)
          from write_second_invocation [OF gate [THEN conjunct1] cmd gate [THEN conjunct2] code s,
              where drv = drv and event = event and h = h] assms match cmd gate code
          show ?thesis
            by (cases "fst (scd4x_stopPeriodicMeasurement drv s)")
               (auto simp add: Let_def armed_def)
        qed
      qed
    qed
  qed
qed

lemma exec_step:
  assumes "exec drv fw c p h = Some (r, p', h')"
    and "st = \<lparr>the_call = c, before = p, host_before = h, returned = r, after = p', host_after = h'\<rparr>"
  shows "performs d st \<longrightarrow> armed d p \<and> \<not> isInitialized p \<and> (\<exists>event. c = Read event)"
    and "armed d p' \<longrightarrow> armed d p \<or> confirms fw d st"
    and "factoryResetCode p' \<noteq> [] \<longrightarrow> factoryResetCode p' = factoryResetCode p \<or> generates fw st"
proof -
  have "(performs d st \<longrightarrow> armed d p \<and> \<not> isInitialized p \<and> (\<exists>event. c = Read event)) \<and>
        (armed d p' \<longrightarrow> armed d p \<or> confirms fw d st) \<and>
        (factoryResetCode p' \<noteq> [] \<longrightarrow> factoryResetCode p' = factoryResetCode p \<or> generates fw st)"
  proof (cases c)
    case (Read event)
    with assms(1) have e: "plugin_read drv fw event p h = Some (r, p', h')"
      by (simp add: exec_def)
    show ?thesis
    proof (cases "isInitialized p")
      case True
      from plugin_read_initialized_frame [OF True e] show ?thesis
        by (auto simp add: assms(2) performs_def armed_def ops_def performed_def)
    next
      case False
      from plugin_read_uninitialized_step [OF False e] False Read show ?thesis
        by (auto simp add: assms(2) performs_def armed_def ops_def performed_def)
    qed
  next
    case (Write event string)
    with assms(1) have e: "plugin_write drv fw event string p h = Some (r, p', h')"
      by (simp add: exec_def)
    from plugin_write_step [OF e] obtain ws where
      w: "wire h' = wire h @ ws"
      and n: "\<forall>b. PerformFactoryReset b \<notin> set ws" "\<forall>b. PerformSelfTest b \<notin> set ws"
      and a: "\<forall>d. armed d p' \<longrightarrow>
              armed d p \<or>
              parseString fw string 1 = ''scd4x'' \<and>
              parseString fw string 2 = (if d then ''selftest'' else ''factoryreset'') \<and>
              factoryResetCode p \<noteq> [] \<and> parseStringKeepCase fw string 3 = factoryResetCode p \<and>
              StopPeriodicMeasurement True \<in> set ws \<and> r"
      and g: "factoryResetCode p' \<noteq> [] \<longrightarrow>
              factoryResetCode p' = factoryResetCode p \<or>
              parseString fw string 1 = ''scd4x'' \<and>
              (parseString fw string 2 = ''factoryreset'' \<or> parseString fw string 2 = ''selftest'') \<and>
              factoryResetCode p = [] \<and>
              factoryResetCode p' = new_code p (parseString fw string 2 = ''selftest'') \<and> r"
      by blast
    have o: "ops st = ws"
      using w by (simp add: assms(2) ops_def performed_def)
    have 1: "\<not> performs d st"
      using n o by (simp add: performs_def)
    have 2: "armed d p' \<longrightarrow> armed d p \<or> confirms fw d st"
      using a [rule_format, of d] o Write by (auto simp add: confirms_def assms(2))
    have 3: "factoryResetCode p' \<noteq> [] \<longrightarrow> factoryResetCode p' = factoryResetCode p \<or> generates fw st"
      using g Write by (auto simp add: generates_def assms(2))
    from 1 2 3 show ?thesis by simp
  qed
  then show "performs d st \<longrightarrow> armed d p \<and> \<not> isInitialized p \<and> (\<exists>event. c = Read event)"
    and "armed d p' \<longrightarrow> armed d p \<or> confirms fw d st"
    and "factoryResetCode p' \<noteq> [] \<longrightarrow> factoryResetCode p' = factoryResetCode p \<or> generates fw st"
    by simp_all
qed

lemma run_Cons_Some:
  assumes "run drv fw (c # cs) p h = Some steps"
  obtains r p' h' steps' where "exec drv fw c p h = Some (r, p', h')"
    and "run drv fw cs p' h' = Some steps'"
    and "steps = \<lparr>the_call = c, before = p, host_before = h, returned = r, after = p',
                   host_after = h'\<rparr> # steps'"
  using assms by (auto split: option.splits)

lemma armed_history:
  assumes "run drv fw calls p h = Some steps" and "k < length steps"
    and "performs d (steps ! k)"
  shows "(armed d p \<or> (\<exists>j<k. confirms fw d (steps ! j))) \<and>
         \<not> isInitialized (before (steps ! k)) \<and> (\<exists>event. the_call (steps ! k) = Read event)"
  using assms
proof (induction calls arbitrary: p h steps k)
  case Nil
  then show ?case by simp
next
  case (Cons c cs)
  from Cons.prems(1) obtain r p' h' steps' where
    e: "exec drv fw c p h = Some (r, p', h')"
    and r: "run drv fw cs p' h' = Some steps'"
    and s: "steps = \<lparr>the_call = c, before = p, host_before = h, returned = r, after = p',
                   host_after = h'\<rparr> # steps'"
    by (rule run_Cons_Some)
  let ?st = "\<lparr>the_call = c, before = p, host_before = h, returned = r, after = p', host_after = h'\<rparr>"
  note x = exec_step(1) [OF e refl, where d = d] exec_step(2) [OF e refl, where d = d]
  show ?case
  proof (cases k)
    case 0
    with Cons.prems(3) s x(1) show ?thesis by simp
  next
    case (Suc k')
    with Cons.prems s have k': "k' < length steps'" and p': "performs d (steps' ! k')"
      by simp_all
    from Cons.IH [OF r k' p'] have
      a: "armed d p' \<or> (\<exists>j<k'. confirms fw d (steps' ! j))"
      and b: "\<not> isInitialized (before (steps' ! k')) \<and> (\<exists>event. the_call (steps' ! k') = Read event)"
      by simp_all
    from a have "armed d p \<or> (\<exists>j<k. confirms fw d (steps ! j))"
    proof
      assume "armed d p'"
      with x(2) have "armed d p \<or> confirms fw d ?st" by simp
      then show ?thesis
        using s Suc by auto
    next
      assume "\<exists>j<k'. confirms fw d (steps' ! j)"
      then obtain j where "j < k'" and "confirms fw d (steps' ! j)" by blast
      then have "Suc j < k" and "confirms fw d (steps ! Suc j)"
        using s Suc by simp_all
      then show ?thesis by blast
    qed
    with b s Suc show ?thesis by simp
  qed
qed

lemma code_history:
  assumes "run drv fw calls p h = Some steps" and "j < length steps"
    and "factoryResetCode (before (steps ! j)) \<noteq> []"
  shows "factoryResetCode (before (steps ! j)) = factoryResetCode p \<or>
         (\<exists>i<j. generates fw (steps ! i) \<and>
                 factoryResetCode (after (steps ! i)) = factoryResetCode (before (steps ! j)))"
  using assms
proof (induction calls arbitrary: p h steps j)
  case Nil
  then show ?case by simp
next
  case (Cons c cs)
  from Cons.prems(1) obtain r p' h' steps' where
    e: "exec drv fw c p h = Some (r, p', h')"
    and r: "run drv fw cs p' h' = Some steps'"
    and s: "steps = \<lparr>the_call = c, before = p, host_before = h, returned = r, after = p',
                   host_after = h'\<rparr> # steps'"
    by (rule run_Cons_Some)
  let ?st = "\<lparr>the_call = c, before = p, host_before = h, returned = r, after = p', host_after = h'\<rparr>"
  note x = exec_step(3) [OF e refl]
  show ?case
  proof (cases j)
    case 0
    with s show ?thesis by simp
  next
    case (Suc j')
    with Cons.prems s have j': "j' < length steps'"
      and c': "factoryResetCode (before (steps' ! j')) \<noteq> []"
      by simp_all
    have q: "before (steps ! j) = before (steps' ! j')"
      using s Suc by simp
    from Cons.IH [OF r j' c'] show ?thesis
    proof
      assume a: "factoryResetCode (before (steps' ! j')) = factoryResetCode p'"
      with c' x have "factoryResetCode p' = factoryResetCode p \<or> generates fw ?st" by simp
      then show ?thesis
      proof
        assume "factoryResetCode p' = factoryResetCode p"
        with a q show ?thesis by simp
      next
        assume "generates fw ?st"
        then have "generates fw (steps ! 0)"
          and "factoryResetCode (after (steps ! 0)) = factoryResetCode (before (steps ! j))"
          using s a q by simp_all
        then show ?thesis
          using Suc by blast
      qed
    next
      assume "\<exists>i<j'. generates fw (steps' ! i) \<and>
                 factoryResetCode (after (steps' ! i)) = factoryResetCode (before (steps' ! j'))"
      then obtain i where "i < j'" and "generates fw (steps' ! i)"
        and "factoryResetCode (after (steps' ! i)) = factoryResetCode (before (steps' ! j'))"
        by blast
      then have "Suc i < j" and "generates fw (steps ! Suc i)"
        and "factoryResetCode (after (steps ! Suc i)) = factoryResetCode (before (steps ! j))"
        using s Suc by simp_all
      then show ?thesis by blast
    qed
  qed
qed

subsection \<open>Facts about the examples\<close>

lemma demo_feature: "P135_FEATURE_RESET_COMMANDS demo_fw"
  by (simp add: demo_fw_def)

lemma demo_stop_delay: "P135_STOP_MEASUREMENT_DELAY demo_fw = 550"
  by (simp add: demo_fw_def)

lemma demo_tokens_factoryreset:
  "parseString demo_fw ''scd4x,factoryreset,Scd4x137areseT'' 1 = ''scd4x''"
  "parseString demo_fw ''scd4x,factoryreset,Scd4x137areseT'' 2 = ''factoryreset''"
  "parseStringKeepCase demo_fw ''scd4x,factoryreset,Scd4x137areseT'' 3 = ''Scd4x137areseT''"
  by (simp_all add: demo_fw_def token_def lower_def)

lemma demo_tokens_selftest:
  "parseString demo_fw ''scd4x,selftest,Scd4x137areseT'' 1 = ''scd4x''"
  "parseString demo_fw ''scd4x,selftest,Scd4x137areseT'' 2 = ''selftest''"
  "parseStringKeepCase demo_fw ''scd4x,selftest,Scd4x137areseT'' 3 = ''Scd4x137areseT''"
  by (simp_all add: demo_fw_def token_def lower_def)

lemma demo_tokens_first:
  "parseString demo_fw ''scd4x,factoryreset'' 1 = ''scd4x''"
  "parseString demo_fw ''scd4x,factoryreset'' 2 = ''factoryreset''"
  "parseString demo_fw ''scd4x,selftest'' 1 = ''scd4x''"
  "parseString demo_fw ''scd4x,selftest'' 2 = ''selftest''"
  by (simp_all add: demo_fw_def token_def lower_def)

lemma demo_handle_fields:
  "scd4x demo_handle = Some [True, True]"
  "serialNumber demo_handle = ''0123456789ab''"
  "factoryResetCode demo_handle = []"
  "initialized demo_handle"
  "firstRead demo_handle"
  "\<not> mustRunFactoryReset demo_handle"
  "\<not> mustRunSelfTest demo_handle"
  "\<not> useSingleShot demo_handle"
  "\<not> lowPowerMeasurement demo_handle"
  by (simp_all add: demo_handle_def members_def)

lemma demo_stop: "scd4x_stopPeriodicMeasurement (scripted sc) [True, True] = (True, [True])"
  by (simp add: scripted_def answer_def)

lemma demo_host_fields:
  "timers demo_host = []" "millis demo_host = 1000" "wire demo_host = []" "logged demo_host = []"
  "loglevelActiveFor_INFO demo_host"
  by (simp_all add: demo_host_def)

lemma demo_event_fields: "TaskIndex demo_event = 2" "BaseVarIndex demo_event = 8"
  by (simp_all add: demo_event_def)

lemma demo_new: "scd4x_new (scripted sc) t = Some sc"
  by (simp add: scripted_def)

lemma demo_begin: "scd4x_begin (scripted sc) a b (x # xs) = (x, xs)"
  by (simp add: scripted_def answer_def)

lemma demo_read_measured:
  assumes "initialized p" and "scd4x p = Some (True # sc)"
    and "\<not> useSingleShot p \<or> singleShotStarted p"
  shows "plugin_read (scripted x) fw event p h =
           Some (\<not> firstRead p,
                 p\<lparr>scd4x := Some sc, singleShotStarted := False, firstRead := False\<rparr>,
                 h\<lparr>wire := wire h @
                      [ReadMeasurement True, GetCO2 415, GetHumidity 50, GetTemperature 21],
                   UserVar := (UserVar h)
                      (BaseVarIndex event := float_of_uint16 fw 415,
                       BaseVarIndex event + 1 := 50,
                       BaseVarIndex event + 2 := 21)\<rparr>)"
proof -
  have g: "if useSingleShot p \<and> \<not> singleShotStarted p
         then scd4x_measureSingleShot (scripted x) (True # sc) = (False, True # sc) \<and>
              ([] :: int bus_op list) = [MeasureSingleShot False]
         else True # sc = True # sc \<and> ([] :: int bus_op list) = []"
    using assms(3) by auto
  have m: "scd4x_readMeasurement (scripted x) (True # sc) = (True, sc)"
    by (simp add: scripted_def answer_def)
  have c: "scd4x_getCO2 (scripted x) sc = (415, sc)"
    "scd4x_getHumidity (scripted x) sc = (50, sc)"
    "scd4x_getTemperature (scripted x) sc = (21, sc)"
    by (simp_all add: scripted_def)
  show ?thesis
    using plugin_read_measure [OF assms(1,2) g m c, where fw = fw and event = event and h = h]
    by simp
qed

lemma demo_stop_answer: "scd4x_stopPeriodicMeasurement (scripted x) (True # sc) = (True, sc)"
  by (simp add: scripted_def answer_def)

lemma demo_tokens_selftest_code:
  "parseString demo_fw ''scd4x,selftest,Scd4x31a6SelF'' 1 = ''scd4x''"
  "parseString demo_fw ''scd4x,selftest,Scd4x31a6SelF'' 2 = ''selftest''"
  "parseStringKeepCase demo_fw ''scd4x,selftest,Scd4x31a6SelF'' 3 = ''Scd4x31a6SelF''"
  by (simp_all add: demo_fw_def token_def lower_def)

lemma demo_read_factory_reset:
  assumes "\<not> initialized p" and "mustRunFactoryReset p" and "\<not> mustRunSelfTest p"
    and "scd4x p = Some (True # True # sc)" and "\<not> useSingleShot p" and "\<not> lowPowerMeasurement p"
  shows "\<exists>h'. plugin_read (scripted x) demo_fw event p h =
                 Some (True, p\<lparr>scd4x := Some sc, initialized := True\<rparr>, h') \<and>
           performed h h' = [PerformFactoryReset True, StartPeriodicMeasurement True]"
  using assms
  by (auto simp add: plugin_read_def isInitialized_def run_maintenance_def bus_def
      startPeriodicMeasurements_def scripted_def answer_def demo_feature performed_def)

lemma demo_read_both:
  assumes "\<not> initialized p" and "mustRunFactoryReset p" and "mustRunSelfTest p"
    and "scd4x p = Some (True # True # True # True # sc)" and "\<not> useSingleShot p"
    and "\<not> lowPowerMeasurement p"
  shows "\<exists>h'. plugin_read (scripted x) demo_fw event p h =
                 Some (True, p\<lparr>scd4x := Some sc, initialized := True\<rparr>, h') \<and>
           performed h h' =
             [PerformFactoryReset True, StartPeriodicMeasurement True,
              PerformSelfTest True, StartPeriodicMeasurement True]"
  using assms
  by (auto simp add: plugin_read_def isInitialized_def run_maintenance_def bus_def
      startPeriodicMeasurements_def scripted_def answer_def demo_feature performed_def)

lemma cx4_constructed:
  "\<exists>h0. P135_new cx4_sensor demo_fw 0 0 0 True False False demo_host =
          Some (demo_handle\<lparr>scd4x := Some [True, True, True, True, True, True, True, True]\<rparr>, h0)"
  by (simp add: P135_new_def members_def bus_def Let_def startPeriodicMeasurements_def
      cx4_sensor_def scripted_def answer_def demo_fw_def demo_handle_def)

subsection \<open>The constructor\<close>



subsection \<open>A sensor that was not detected\<close>

text \<open>
  C3, as amended. When the driver object exists and the probe \<^verbatim>\<open>begin\<close> fails, the constructor
  performs no other bus operation and leaves the handle uninitialized. On that handle,
  whatever the state of its driver object, \<^verbatim>\<open>plugin_read\<close> returns failure and changes
  nothing, and so does \<^verbatim>\<open>plugin_write\<close> for every command other than \<^verbatim>\<open>scd4x,storesettings\<close>,
  \<^verbatim>\<open>scd4x,factoryreset\<close> and \<^verbatim>\<open>scd4x,selftest\<close>. A \<^verbatim>\<open>scd4x,storesettings\<close> command does call
  \<^verbatim>\<open>persistSettings\<close> and returns what the driver returns; it changes the driver object and
  nothing else of the handle.
\<close>

theorem undetected_sensor:
  assumes "scd4x_new drv sensorType' = Some s0"
    and "\<not> fst (scd4x_begin drv False autoCalibrate' s0)"
  shows "\<exists>p h'.
           P135_new drv fw sensorType' altitude' tempOffset' autoCalibrate' lowPowerMeasurement'
             useSingleShot' h = Some (p, h') \<and>
           \<not> isInitialized p \<and>
           scd4x p = Some (snd (scd4x_begin drv False autoCalibrate' s0)) \<and>
           performed h h' = [Begin False autoCalibrate' False] \<and>
           (\<forall>s event h1.
              plugin_read drv fw event (p\<lparr>scd4x := Some s\<rparr>) h1 = Some (False, p\<lparr>scd4x := Some s\<rparr>, h1)) \<and>
           (\<forall>s event string h1.
              \<not> (parseString fw string 1 = ''scd4x'' \<and>
                 parseString fw string 2 \<in> {''storesettings'', ''factoryreset'', ''selftest''}) \<longrightarrow>
              plugin_write drv fw event string (p\<lparr>scd4x := Some s\<rparr>) h1 =
                Some (False, p\<lparr>scd4x := Some s\<rparr>, h1)) \<and>
           (\<forall>s event string h1.
              parseString fw string 1 = ''scd4x'' \<and> parseString fw string 2 = ''storesettings'' \<longrightarrow>
              plugin_write drv fw event string (p\<lparr>scd4x := Some s\<rparr>) h1 =
                Some (fst (scd4x_persistSettings drv s),
                      p\<lparr>scd4x := Some (snd (scd4x_persistSettings drv s))\<rparr>,
                      h1\<lparr>wire := wire h1 @ [PersistSettings (fst (scd4x_persistSettings drv s))]\<rparr>))"
proof -
  obtain s1 where b: "scd4x_begin drv False autoCalibrate' s0 = (False, s1)"
    using assms(2) by (cases "scd4x_begin drv False autoCalibrate' s0") auto
  let ?p = "(members sensorType' altitude' tempOffset' autoCalibrate' lowPowerMeasurement' useSingleShot')
              \<lparr>scd4x := Some s1\<rparr> :: ('a, 'b) P135_data_struct"
  have n: "P135_new drv fw sensorType' altitude' tempOffset' autoCalibrate' lowPowerMeasurement'
             useSingleShot' h =
           Some (?p, addLog LOG_LEVEL_ERROR ''SDC4x: Sensor not detected.''
                       (h\<lparr>wire := wire h @ [Begin False autoCalibrate' False]\<rparr>))"
    using assms(1) b by (simp add: P135_new_def members_def bus_def Let_def)
  have r: "plugin_read drv fw event (?p\<lparr>scd4x := Some s\<rparr>) h1 = Some (False, ?p\<lparr>scd4x := Some s\<rparr>, h1)"
    for s event h1
    by (simp add: plugin_read_def isInitialized_def members_def)
  have w: "plugin_write drv fw event string (?p\<lparr>scd4x := Some s\<rparr>) h1 =
                Some (False, ?p\<lparr>scd4x := Some s\<rparr>, h1)"
    if "\<not> (parseString fw string 1 = ''scd4x'' \<and>
                 parseString fw string 2 \<in> {''storesettings'', ''factoryreset'', ''selftest''})"
    for s event string h1
    using that by (auto simp add: plugin_write_def Let_def)
  have t: "plugin_write drv fw event string (?p\<lparr>scd4x := Some s\<rparr>) h1 =
                Some (fst (scd4x_persistSettings drv s),
                      ?p\<lparr>scd4x := Some (snd (scd4x_persistSettings drv s))\<rparr>,
                      h1\<lparr>wire := wire h1 @ [PersistSettings (fst (scd4x_persistSettings drv s))]\<rparr>)"
    if "parseString fw string 1 = ''scd4x'' \<and> parseString fw string 2 = ''storesettings''"
    for s event string h1
    using that by (simp add: plugin_write_def Let_def bus_def split: prod.splits)
  have i: "\<not> isInitialized ?p" "scd4x ?p = Some (snd (scd4x_begin drv False autoCalibrate' s0))"
    by (simp_all add: isInitialized_def members_def b)
  have o: "performed h (addLog LOG_LEVEL_ERROR ''SDC4x: Sensor not detected.''
                       (h\<lparr>wire := wire h @ [Begin False autoCalibrate' False]\<rparr>)) =
           [Begin False autoCalibrate' False]"
    by (simp add: performed_def)
  show ?thesis
    using n i o r w t by blast
qed

theorem undetected_sensor_witness:
  "\<exists>p h'.
     P135_new (scripted [False, True]) demo_fw 0 0 0 True False False demo_host = Some (p, h') \<and>
     \<not> isInitialized p \<and> scd4x p = Some [True] \<and>
     plugin_read (scripted [False, True]) demo_fw demo_event p h' = Some (False, p, h') \<and>
     plugin_write (scripted [False, True]) demo_fw demo_event ''scd4x,getdata'' p h' = Some (False, p, h') \<and>
     plugin_write (scripted [False, True]) demo_fw demo_event ''scd4x,storesettings'' p h' =
       Some (True, p\<lparr>scd4x := Some []\<rparr>, h'\<lparr>wire := wire h' @ [PersistSettings True]\<rparr>)"
proof -
  have b: "\<not> fst (scd4x_begin (scripted [False, True]) False True [False, True])"
    and b': "snd (scd4x_begin (scripted [False, True]) False True [False, True]) = [True]"
    by (simp_all add: demo_begin)
  have t: "parseString demo_fw ''scd4x,storesettings'' 1 = ''scd4x''"
    "parseString demo_fw ''scd4x,storesettings'' 2 = ''storesettings''"
    "parseString demo_fw ''scd4x,getdata'' 1 = ''scd4x''"
    "parseString demo_fw ''scd4x,getdata'' 2 = ''getdata''"
    by (simp_all add: demo_fw_def token_def lower_def)
  have q: "scd4x_persistSettings (scripted [False, True]) [True] = (True, [])"
    by (simp add: scripted_def answer_def)
  from undetected_sensor [OF demo_new [where t = 0] b, where fw = demo_fw and altitude' = 0
      and tempOffset' = 0 and lowPowerMeasurement' = False and useSingleShot' = False and h = demo_host]
  obtain p h' where
    n: "P135_new (scripted [False, True]) demo_fw 0 0 0 True False False demo_host = Some (p, h')"
    and i: "\<not> isInitialized p"
    and s: "scd4x p = Some [True]"
    and r: "\<forall>s event h1.
              plugin_read (scripted [False, True]) demo_fw event (p\<lparr>scd4x := Some s\<rparr>) h1 =
                Some (False, p\<lparr>scd4x := Some s\<rparr>, h1)"
    and w: "\<forall>s event string h1.
              \<not> (parseString demo_fw string 1 = ''scd4x'' \<and>
                 parseString demo_fw string 2 \<in> {''storesettings'', ''factoryreset'', ''selftest''}) \<longrightarrow>
              plugin_write (scripted [False, True]) demo_fw event string (p\<lparr>scd4x := Some s\<rparr>) h1 =
                Some (False, p\<lparr>scd4x := Some s\<rparr>, h1)"
    and x: "\<forall>s event string h1.
              parseString demo_fw string 1 = ''scd4x'' \<and> parseString demo_fw string 2 = ''storesettings'' \<longrightarrow>
              plugin_write (scripted [False, True]) demo_fw event string (p\<lparr>scd4x := Some s\<rparr>) h1 =
                Some (fst (scd4x_persistSettings (scripted [False, True]) s),
                      p\<lparr>scd4x := Some (snd (scd4x_persistSettings (scripted [False, True]) s))\<rparr>,
                      h1\<lparr>wire := wire h1 @ [PersistSettings (fst (scd4x_persistSettings (scripted [False, True]) s))]\<rparr>)"
    unfolding b' by blast
  have e: "p\<lparr>scd4x := Some [True]\<rparr> = p"
    using s by simp
  have 1: "plugin_read (scripted [False, True]) demo_fw demo_event p h' = Some (False, p, h')"
    using r [rule_format, where s = "[True]" and event = demo_event and ?h1.0 = h'] by (simp add: e)
  have 2: "plugin_write (scripted [False, True]) demo_fw demo_event ''scd4x,getdata'' p h' = Some (False, p, h')"
    using w [rule_format, where string = "''scd4x,getdata''" and s = "[True]" and event = demo_event and ?h1.0 = h'] t by (simp add: e)
  have 3: "plugin_write (scripted [False, True]) demo_fw demo_event ''scd4x,storesettings'' p h' =
       Some (True, p\<lparr>scd4x := Some []\<rparr>, h'\<lparr>wire := wire h' @ [PersistSettings True]\<rparr>)"
    using x [rule_format, where string = "''scd4x,storesettings''" and s = "[True]" and event = demo_event and ?h1.0 = h'] t by (simp add: e q)
  from n i s 1 2 3 show ?thesis by blast
qed

text \<open>
  As the claim C3 is written, a \<^verbatim>\<open>scd4x,storesettings\<close> command on a handle whose sensor was
  not detected performs no bus operation and returns failure. \<^verbatim>\<open>plugin_write\<close> does not look
  at the initialization flag: the command reaches the driver, and returns success when the
  driver does.
\<close>

theorem undetected_sensor_counterexample:
  "P135_new (scripted [False, True]) demo_fw 0 0 0 True False False demo_host =
     Some (cx3_handle, cx3_host) \<and>
   \<not> isInitialized cx3_handle \<and>
   plugin_write (scripted [False, True]) demo_fw demo_event ''scd4x,storesettings'' cx3_handle cx3_host =
     Some (True, cx3_handle\<lparr>scd4x := Some []\<rparr>,
           cx3_host\<lparr>wire := [Begin False True False, PersistSettings True]\<rparr>)"
proof -
  have t: "parseString demo_fw ''scd4x,storesettings'' 1 = ''scd4x''"
    "parseString demo_fw ''scd4x,storesettings'' 2 = ''storesettings''"
    by (simp_all add: demo_fw_def token_def lower_def)
  have n: "P135_new (scripted [False, True]) demo_fw 0 0 0 True False False demo_host =
     Some (cx3_handle, cx3_host)"
    by (simp add: P135_new_def members_def bus_def Let_def scripted_def answer_def addLog_def
        cx3_handle_def cx3_host_def demo_host_def)
  have i: "\<not> isInitialized cx3_handle"
    by (simp add: isInitialized_def cx3_handle_def members_def)
  have w: "plugin_write (scripted [False, True]) demo_fw demo_event ''scd4x,storesettings'' cx3_handle cx3_host =
     Some (True, cx3_handle\<lparr>scd4x := Some []\<rparr>,
           cx3_host\<lparr>wire := [Begin False True False, PersistSettings True]\<rparr>)"
    using t
    by (simp add: plugin_write_def Let_def bus_def scripted_def answer_def cx3_handle_def cx3_host_def)
  from n i w show ?thesis by simp
qed

subsection \<open>The read cycle: the first measurement is discarded\<close>

text \<open>
  C2. On an initialized handle whose first-read flag is armed (as it is after construction
  and after a maintenance command re-arms it), any sequence of \<^verbatim>\<open>plugin_read\<close> calls runs to
  its end, and every call of it in which \<^verbatim>\<open>readMeasurement\<close> succeeds writes the three output
  slots with the sample (CO2, humidity, temperature). Such a call returns success exactly when
  an earlier call of the sequence obtained a measurement: the first one returns failure, the
  next one and all later ones return success.
\<close>

theorem first_measurement_discarded:
  assumes "isInitialized p" and "firstRead p"
  shows "\<exists>steps.
           run drv fw (map Read events) p h = Some steps \<and> length steps = length events \<and>
           (\<forall>k<length steps. measured (steps ! k) \<longrightarrow>
              sample_written fw (steps ! k) \<and>
              (returned (steps ! k) \<longleftrightarrow> (\<exists>j<k. measured (steps ! j))))"
  using reads_run [where drv = drv and fw = fw and events = events and p = p and h = h] assms
  unfolding isInitialized_def by auto

theorem first_measurement_discarded_witness:
  "\<exists>steps.
     run (scripted []) demo_fw [Read demo_event, Read demo_event] demo_handle demo_host = Some steps \<and>
     map measured steps = [True, True] \<and> map returned steps = [False, True] \<and>
     sample_written demo_fw (steps ! 0) \<and> sample_written demo_fw (steps ! 1) \<and>
     UserVar (host_after (steps ! 1)) 8 = 415"
proof -
  have i: "isInitialized demo_handle"
    by (simp add: isInitialized_def demo_handle_fields)
  from first_measurement_discarded [OF i demo_handle_fields(5), where drv = "scripted []"
      and fw = demo_fw and events = "[demo_event, demo_event]" and h = demo_host]
  obtain steps where
    r: "run (scripted []) demo_fw [Read demo_event, Read demo_event] demo_handle demo_host = Some steps"
    and l: "length steps = 2"
    and a: "\<forall>k<length steps. measured (steps ! k) \<longrightarrow>
              sample_written demo_fw (steps ! k) \<and>
              (returned (steps ! k) \<longleftrightarrow> (\<exists>j<k. measured (steps ! j)))"
    by auto
  define p1 where "p1 = demo_handle\<lparr>scd4x := Some [True], singleShotStarted := False, firstRead := False\<rparr>"
  have e0: "\<exists>r0 h1. plugin_read (scripted []) demo_fw demo_event demo_handle demo_host = Some (r0, p1, h1) \<and>
      performed demo_host h1 = [ReadMeasurement True, GetCO2 415, GetHumidity 50, GetTemperature 21]"
    using demo_read_measured [OF demo_handle_fields(4) demo_handle_fields(1), where x = "[]"
        and fw = demo_fw and event = demo_event and h = demo_host]
    by (auto simp add: demo_handle_fields p1_def performed_def)
  then obtain r0 h1 where
    e0': "plugin_read (scripted []) demo_fw demo_event demo_handle demo_host = Some (r0, p1, h1)"
    and o0: "performed demo_host h1 = [ReadMeasurement True, GetCO2 415, GetHumidity 50, GetTemperature 21]"
    by blast
  have p1: "initialized p1" "scd4x p1 = Some [True]" "\<not> useSingleShot p1"
    by (simp_all add: p1_def demo_handle_fields)
  have e1: "\<exists>r1 p2 h2. plugin_read (scripted []) demo_fw demo_event p1 h1 = Some (r1, p2, h2) \<and>
      performed h1 h2 = [ReadMeasurement True, GetCO2 415, GetHumidity 50, GetTemperature 21] \<and>
      UserVar h2 8 = 415"
    using demo_read_measured [OF p1(1) p1(2), where x = "[]"
        and fw = demo_fw and event = demo_event and h = h1] p1(3)
    by (auto simp add: performed_def demo_event_fields demo_fw_def)
  then obtain r1 p2 h2 where
    e1': "plugin_read (scripted []) demo_fw demo_event p1 h1 = Some (r1, p2, h2)"
    and o1: "performed h1 h2 = [ReadMeasurement True, GetCO2 415, GetHumidity 50, GetTemperature 21]"
    and u: "UserVar h2 8 = 415"
    by blast
  have s: "steps = [\<lparr>the_call = Read demo_event, before = demo_handle, host_before = demo_host,
                     returned = r0, after = p1, host_after = h1\<rparr>,
                   \<lparr>the_call = Read demo_event, before = p1, host_before = h1,
                     returned = r1, after = p2, host_after = h2\<rparr>]"
    using r e0' e1' by (simp add: exec_def)
  have m: "measured (steps ! 0)" "measured (steps ! 1)"
    using o0 o1 by (simp_all add: s measured_def ops_def)
  have "\<not> returned (steps ! 0)" and "returned (steps ! 1)"
    and "sample_written demo_fw (steps ! 0)" and "sample_written demo_fw (steps ! 1)"
    using a [rule_format, of 0] a [rule_format, of 1] m l by auto
  then show ?thesis
    using r m u l by (auto simp add: s)
qed

subsection \<open>The read cycle: single-shot mode\<close>

text \<open>
  C6, as amended. On an initialized handle in single-shot mode, a \<^verbatim>\<open>plugin_read\<close> that finds
  no shot pending first calls \<^verbatim>\<open>measureSingleShot\<close>. If the sensor accepts the request, nothing
  else goes over the bus, the shot is marked pending, the output slots are as they were and
  the call returns failure. If the sensor rejects it, no shot is marked pending and the call
  goes on to \<^verbatim>\<open>readMeasurement\<close>; it returns success exactly when that read succeeds and the
  first read is over. A \<^verbatim>\<open>plugin_read\<close> that finds a shot pending does not call
  \<^verbatim>\<open>measureSingleShot\<close>.
\<close>

theorem single_shot_trigger:
  assumes "initialized p" and "scd4x p = Some s" and "useSingleShot p"
  shows "\<exists>r p' h'.
           plugin_read drv fw event p h = Some (r, p', h') \<and>
           (if singleShotStarted p then \<forall>b. MeasureSingleShot b \<notin> set (performed h h')
            else if fst (scd4x_measureSingleShot drv s) then
              performed h h' = [MeasureSingleShot True] \<and> \<not> r \<and> singleShotStarted p' \<and>
              UserVar h' = UserVar h
            else
              \<not> singleShotStarted p' \<and>
              (\<exists>rest. performed h h' =
                 MeasureSingleShot False #
                 ReadMeasurement (fst (scd4x_readMeasurement drv (snd (scd4x_measureSingleShot drv s)))) #
                 rest) \<and>
              (r \<longleftrightarrow> fst (scd4x_readMeasurement drv (snd (scd4x_measureSingleShot drv s))) \<and>
                      \<not> firstRead p))"
proof -
  obtain t s1 where t: "scd4x_measureSingleShot drv s = (t, s1)"
    by (cases "scd4x_measureSingleShot drv s")
  show ?thesis
  proof (cases "\<not> singleShotStarted p \<and> t")
    case True
    then show ?thesis
      using plugin_read_trigger_ok [OF assms(1,2,3), where drv = drv and ?s1.0 = s1
          and fw = fw and event = event and h = h] t
      by (auto simp add: performed_def)
  next
    case False
    define s1' where "s1' = (if \<not> singleShotStarted p then s1 else s)"
    define pre :: "'b bus_op list" where
      "pre = (if \<not> singleShotStarted p then [MeasureSingleShot False] else [])"
    obtain m s2 where m: "scd4x_readMeasurement drv s1' = (m, s2)"
      by (cases "scd4x_readMeasurement drv s1'")
    obtain co2 s3 where c: "scd4x_getCO2 drv s2 = (co2, s3)"
      by (cases "scd4x_getCO2 drv s2")
    obtain hu s4 where u: "scd4x_getHumidity drv s3 = (hu, s4)"
      by (cases "scd4x_getHumidity drv s3")
    obtain te s5 where e: "scd4x_getTemperature drv s4 = (te, s5)"
      by (cases "scd4x_getTemperature drv s4")
    have g: "if useSingleShot p \<and> \<not> singleShotStarted p
         then scd4x_measureSingleShot drv s = (False, s1') \<and> pre = [MeasureSingleShot False]
         else s1' = s \<and> pre = []"
      using False t assms(3) by (auto simp add: s1'_def pre_def)
    have k: "\<not> singleShotStarted p \<Longrightarrow>
             fst (scd4x_readMeasurement drv (snd (scd4x_measureSingleShot drv s))) = m"
      using m t by (simp add: s1'_def)
    show ?thesis
      using plugin_read_measure [OF assms(1,2) g m c u e, where fw = fw and event = event and h = h]
        False t k
      by (cases m) (auto simp add: performed_def pre_def)
  qed
qed

theorem single_shot_trigger_witness:
  "(\<exists>p' h'.
      plugin_read (scripted []) demo_fw demo_event (cx6_before\<lparr>scd4x := Some [True]\<rparr>) demo_host
        = Some (False, p', h') \<and>
      performed demo_host h' = [MeasureSingleShot True] \<and> singleShotStarted p' \<and>
      UserVar h' = UserVar demo_host) \<and>
   (\<exists>p' h' rest.
      plugin_read (scripted []) demo_fw demo_event (cx6_before\<lparr>scd4x := Some [False, False]\<rparr>)
        demo_host = Some (False, p', h') \<and>
      performed demo_host h' = MeasureSingleShot False # ReadMeasurement False # rest \<and>
      \<not> singleShotStarted p') \<and>
   (\<exists>r p' h'.
      plugin_read (scripted []) demo_fw demo_event
        (cx6_before\<lparr>scd4x := Some [True], singleShotStarted := True\<rparr>) demo_host
        = Some (r, p', h') \<and>
      MeasureSingleShot True \<notin> set (performed demo_host h') \<and>
      MeasureSingleShot False \<notin> set (performed demo_host h'))"
proof -
  let ?p = "cx6_before\<lparr>scd4x := Some [True]\<rparr>"
  let ?q = "cx6_before\<lparr>scd4x := Some [False, False]\<rparr>"
  let ?u = "cx6_before\<lparr>scd4x := Some [True], singleShotStarted := True\<rparr>"
  have i: "initialized ?p" and s: "scd4x ?p = Some [True]" and u: "useSingleShot ?p"
    and n: "\<not> singleShotStarted ?p"
    by (simp_all add: cx6_before_def members_def)
  have a: "fst (scd4x_measureSingleShot (scripted []) [True])"
    by (simp add: scripted_def answer_def)
  have 1: "\<exists>p' h'.
      plugin_read (scripted []) demo_fw demo_event ?p demo_host = Some (False, p', h') \<and>
      performed demo_host h' = [MeasureSingleShot True] \<and> singleShotStarted p' \<and>
      UserVar h' = UserVar demo_host"
    using single_shot_trigger [OF i s u, where drv = "scripted []" and fw = demo_fw
        and event = demo_event and h = demo_host] n a
    by auto
  have i': "initialized ?q" and s': "scd4x ?q = Some [False, False]" and u': "useSingleShot ?q"
    and n': "\<not> singleShotStarted ?q" and f': "\<not> firstRead ?q"
    by (simp_all add: cx6_before_def members_def)
  have a': "\<not> fst (scd4x_measureSingleShot (scripted []) [False, False])"
    and b': "\<not> fst (scd4x_readMeasurement (scripted [])
                     (snd (scd4x_measureSingleShot (scripted []) [False, False])))"
    by (simp_all add: scripted_def answer_def)
  have 2: "\<exists>p' h' rest.
      plugin_read (scripted []) demo_fw demo_event ?q demo_host = Some (False, p', h') \<and>
      performed demo_host h' = MeasureSingleShot False # ReadMeasurement False # rest \<and>
      \<not> singleShotStarted p'"
    using single_shot_trigger [OF i' s' u', where drv = "scripted []" and fw = demo_fw
        and event = demo_event and h = demo_host] n' a' b'
    by auto
  have i'': "initialized ?u" and s'': "scd4x ?u = Some [True]" and u'': "useSingleShot ?u"
    and n'': "singleShotStarted ?u"
    by (simp_all add: cx6_before_def members_def)
  have 3: "\<exists>r p' h'.
      plugin_read (scripted []) demo_fw demo_event ?u demo_host = Some (r, p', h') \<and>
      MeasureSingleShot True \<notin> set (performed demo_host h') \<and>
      MeasureSingleShot False \<notin> set (performed demo_host h')"
    using single_shot_trigger [OF i'' s'' u'', where drv = "scripted []" and fw = demo_fw
        and event = demo_event and h = demo_host] n''
    by auto
  from 1 2 3 show ?thesis by blast
qed

text \<open>
  As the claim C6 is written, every read that finds no shot pending marks one pending and
  returns failure. When the sensor rejects the request the code goes on to read a
  measurement: with the first read over, the call below returns success and no shot is
  pending after it.
\<close>

theorem single_shot_counterexample:
  "useSingleShot cx6_before \<and> isInitialized cx6_before \<and> \<not> singleShotStarted cx6_before \<and>
   plugin_read (scripted []) demo_fw demo_event cx6_before demo_host =
     Some (True, cx6_after, cx6_host_after) \<and>
   \<not> singleShotStarted cx6_after"
proof -
  have i: "initialized cx6_before" and s: "scd4x cx6_before = Some [False, True]"
    and u: "useSingleShot cx6_before" and n: "\<not> singleShotStarted cx6_before"
    and f: "\<not> firstRead cx6_before"
    by (simp_all add: cx6_before_def members_def)
  have g: "if useSingleShot cx6_before \<and> \<not> singleShotStarted cx6_before
         then scd4x_measureSingleShot (scripted []) [False, True] = (False, [True]) \<and>
              [MeasureSingleShot False] = [MeasureSingleShot False :: int bus_op]
         else [True] = [False, True] \<and> [MeasureSingleShot False :: int bus_op] = []"
    using u n by (simp add: scripted_def answer_def)
  have m: "scd4x_readMeasurement (scripted []) [True] = (True, [])"
    by (simp add: scripted_def answer_def)
  have c: "scd4x_getCO2 (scripted []) [] = (415, [])"
    "scd4x_getHumidity (scripted []) [] = (50, [])"
    "scd4x_getTemperature (scripted []) [] = (21, [])"
    by (simp_all add: scripted_def)
  have "plugin_read (scripted []) demo_fw demo_event cx6_before demo_host =
     Some (True, cx6_after, cx6_host_after)"
    using plugin_read_measure [OF i s g m c, where fw = demo_fw and event = demo_event and h = demo_host] f
    by (simp add: cx6_after_def cx6_host_after_def cx6_before_def members_def demo_host_def
        demo_event_def demo_fw_def)
  then show ?thesis
    using i s u n by (simp add: isInitialized_def cx6_after_def)
qed

subsection \<open>The read cycle: re-polling\<close>

text \<open>
  C8. A \<^verbatim>\<open>plugin_read\<close> on an initialized handle returns, and if it obtained no measurement
  (\<^verbatim>\<open>readMeasurement\<close> did not succeed in it) it returns failure and requests one timer for
  the task at \<^verbatim>\<open>millis()\<close> plus a delay: \<^verbatim>\<open>P135_EXTEND_MEASURE_TIME\<close> when no single shot was
  triggered in this call and the first read is over, otherwise the time of the configured
  mode (single-shot, then low-power, then normal). The four times are macros of the header
  and parameters here; they are taken to be non-zero, and then so is the delay.
\<close>

theorem read_without_measurement_reschedules:
  assumes "isInitialized p"
    and "P135_EXTEND_MEASURE_TIME fw \<noteq> 0"
    and "P135_SINGLE_SHOT_MEASURE_TIME fw \<noteq> 0"
    and "P135_LOW_POWER_MEASURE_TIME fw \<noteq> 0"
    and "P135_NORMAL_MEASURE_TIME fw \<noteq> 0"
  shows "\<exists>r p' h' d.
           plugin_read drv fw event p h = Some (r, p', h') \<and>
           d = (if MeasureSingleShot True \<notin> set (performed h h') \<and> \<not> firstRead p
                then P135_EXTEND_MEASURE_TIME fw
                else if useSingleShot p then P135_SINGLE_SHOT_MEASURE_TIME fw
                else if lowPowerMeasurement p then P135_LOW_POWER_MEASURE_TIME fw
                else P135_NORMAL_MEASURE_TIME fw) \<and>
           (ReadMeasurement True \<notin> set (performed h h') \<longrightarrow>
              \<not> r \<and> d \<noteq> 0 \<and>
              timers h' = timers h @ [(TaskIndex event, millis h + ucast d)])"
proof -
  from assms(1) obtain s where s: "scd4x p = Some s" and i: "initialized p"
    by (auto simp add: isInitialized_def)
  obtain t s1 where t: "scd4x_measureSingleShot drv s = (t, s1)"
    by (cases "scd4x_measureSingleShot drv s")
  show ?thesis
  proof (cases "useSingleShot p \<and> \<not> singleShotStarted p \<and> t")
    case True
    then show ?thesis
      using plugin_read_trigger_ok [OF i s _ _ t [unfolded True [THEN conjunct2, THEN conjunct2, THEN eqTrueI]], where fw = fw and event = event and h = h]
        assms(3)
      by (auto simp add: performed_def)
  next
    case False
    define s1' where "s1' = (if useSingleShot p \<and> \<not> singleShotStarted p then s1 else s)"
    define pre :: "'b bus_op list" where
      "pre = (if useSingleShot p \<and> \<not> singleShotStarted p then [MeasureSingleShot False] else [])"
    obtain m s2 where m: "scd4x_readMeasurement drv s1' = (m, s2)"
      by (cases "scd4x_readMeasurement drv s1'")
    obtain co2 s3 where c: "scd4x_getCO2 drv s2 = (co2, s3)"
      by (cases "scd4x_getCO2 drv s2")
    obtain hu s4 where u: "scd4x_getHumidity drv s3 = (hu, s4)"
      by (cases "scd4x_getHumidity drv s3")
    obtain te s5 where e: "scd4x_getTemperature drv s4 = (te, s5)"
      by (cases "scd4x_getTemperature drv s4")
    have g: "if useSingleShot p \<and> \<not> singleShotStarted p
         then scd4x_measureSingleShot drv s = (False, s1') \<and> pre = [MeasureSingleShot False]
         else s1' = s \<and> pre = []"
      using False t by (auto simp add: s1'_def pre_def)
    have n: "MeasureSingleShot True \<notin> set pre"
      by (simp add: pre_def)
    show ?thesis
      using plugin_read_measure [OF i s g m c u e, where fw = fw and event = event and h = h] assms(2-5) n
      by (cases m) (auto simp add: performed_def retry_delay_def)
  qed
qed

theorem read_without_measurement_reschedules_witness:
  "\<exists>p' h'.
     plugin_read (scripted []) demo_fw demo_event
       (demo_handle\<lparr>scd4x := Some [], firstRead := False\<rparr>) demo_host = Some (False, p', h') \<and>
     performed demo_host h' = [ReadMeasurement False] \<and> timers h' = [(2, 2000)]"
proof -
  let ?p = "demo_handle\<lparr>scd4x := Some [], firstRead := False\<rparr>"
  have i: "isInitialized ?p" and i': "initialized ?p" and s: "scd4x ?p = Some []"
    by (simp_all add: isInitialized_def demo_handle_fields)
  have z: "P135_EXTEND_MEASURE_TIME demo_fw \<noteq> 0" "P135_SINGLE_SHOT_MEASURE_TIME demo_fw \<noteq> 0"
    "P135_LOW_POWER_MEASURE_TIME demo_fw \<noteq> 0" "P135_NORMAL_MEASURE_TIME demo_fw \<noteq> 0"
    by (simp_all add: demo_fw_def)
  have x: "P135_EXTEND_MEASURE_TIME demo_fw = 1000"
    by (simp add: demo_fw_def)
  from read_without_measurement_reschedules [OF i z, where drv = "scripted []" and event = demo_event
      and h = demo_host]
  obtain r p' h' d where
    e: "plugin_read (scripted []) demo_fw demo_event ?p demo_host = Some (r, p', h')"
    and d: "d = (if MeasureSingleShot True \<notin> set (performed demo_host h') \<and> \<not> firstRead ?p
                then P135_EXTEND_MEASURE_TIME demo_fw
                else if useSingleShot ?p then P135_SINGLE_SHOT_MEASURE_TIME demo_fw
                else if lowPowerMeasurement ?p then P135_LOW_POWER_MEASURE_TIME demo_fw
                else P135_NORMAL_MEASURE_TIME demo_fw)"
    and t: "ReadMeasurement True \<notin> set (performed demo_host h') \<longrightarrow>
              \<not> r \<and> d \<noteq> 0 \<and>
              timers h' = timers demo_host @ [(TaskIndex demo_event, millis demo_host + ucast d)]"
    by blast
  have g: "if useSingleShot ?p \<and> \<not> singleShotStarted ?p
         then scd4x_measureSingleShot (scripted []) [] = (False, []) \<and>
              ([] :: int bus_op list) = [MeasureSingleShot False]
         else ([] :: bool list) = [] \<and> ([] :: int bus_op list) = []"
    by (simp add: demo_handle_fields)
  have m: "scd4x_readMeasurement (scripted []) [] = (False, [])"
    by (simp add: scripted_def answer_def)
  have c: "scd4x_getCO2 (scripted []) [] = (415, [])"
    "scd4x_getHumidity (scripted []) [] = (50, [])"
    "scd4x_getTemperature (scripted []) [] = (21, [])"
    by (simp_all add: scripted_def)
  have o: "performed demo_host h' = [ReadMeasurement False]"
    using plugin_read_measure [OF i' s g m c, where fw = demo_fw and event = demo_event and h = demo_host] e
    by (simp add: performed_def)
  have "d = 1000"
    using d o x by simp
  with t o have "\<not> r" and "timers h' = [(2, 2000)]"
    by (simp_all add: demo_host_fields demo_event_fields)
  with e o show ?thesis by auto
qed

subsection \<open>The maintenance gate: first invocation\<close>

text \<open>
  C5. A \<^verbatim>\<open>scd4x,factoryreset\<close> or \<^verbatim>\<open>scd4x,selftest\<close> command that finds no confirmation code on
  file returns success, stores a code and hands one line with the code to the logger at error
  level; nothing else changes, so no bus operation is performed. The code is \<^verbatim>\<open>Scd4x\<close>, then
  four bytes of the cached serial number (bytes 3, 1, 10, 6 for the self-test and bytes
  1, 3, 7, 10 for the factory reset) or \<^verbatim>\<open>2022\<close> when byte 10 of the serial number is NUL (no
  serial number was captured), then \<^verbatim>\<open>SelF\<close> or \<^verbatim>\<open>reseT\<close>.
\<close>

theorem first_invocation_generates_code:
  assumes "P135_FEATURE_RESET_COMMANDS fw"
    and "parseString fw string 1 = ''scd4x''"
    and "parseString fw string 2 = ''factoryreset'' \<or> parseString fw string 2 = ''selftest''"
    and "factoryResetCode p = []"
  shows "plugin_write drv fw event string p h =
           Some (True, p\<lparr>factoryResetCode := new_code p (parseString fw string 2 = ''selftest'')\<rparr>,
                 h\<lparr>logged := logged h @
                    [(LOG_LEVEL_ERROR,
                      (if parseString fw string 2 = ''selftest'' then ''SCD4x: Selftest code: ''
                       else ''SCD4x: Factory reset code: '') @
                      new_code p (parseString fw string 2 = ''selftest''))]\<rparr>) \<and>
         new_code p (parseString fw string 2 = ''selftest'') =
           ''Scd4x'' @
           (if 10 < length (serialNumber p) \<and> serialNumber p ! 10 \<noteq> CHR 0x00 then
              (if parseString fw string 2 = ''selftest'' then
                 [serialNumber p ! 3, serialNumber p ! 1, serialNumber p ! 10, serialNumber p ! 6]
               else
                 [serialNumber p ! 1, serialNumber p ! 3, serialNumber p ! 7, serialNumber p ! 10])
            else ''2022'') @
           (if parseString fw string 2 = ''selftest'' then ''SelF'' else ''reseT'')"
  using assms
  by (auto simp add: plugin_write_def new_code_def char_at_def addLog_def Let_def)

theorem first_invocation_generates_code_witness:
  "plugin_write (scripted []) demo_fw demo_event ''scd4x,selftest'' demo_handle demo_host =
     Some (True, demo_handle\<lparr>factoryResetCode := ''Scd4x31a6SelF''\<rparr>,
           demo_host\<lparr>logged := [(LOG_LEVEL_ERROR, ''SCD4x: Selftest code: Scd4x31a6SelF'')]\<rparr>)"
proof -
  have f: "P135_FEATURE_RESET_COMMANDS demo_fw"
    by (simp add: demo_fw_def)
  have t1: "parseString demo_fw ''scd4x,selftest'' 1 = ''scd4x''"
    by (simp add: demo_fw_def token_def lower_def)
  have t2: "parseString demo_fw ''scd4x,selftest'' 2 = ''selftest''"
    by (simp add: demo_fw_def token_def lower_def)
  have c: "factoryResetCode demo_handle = []"
    by (simp add: demo_handle_def members_def)
  have sn: "serialNumber demo_handle = ''0123456789ab''"
    by (simp add: demo_handle_def members_def)
  show ?thesis
    using first_invocation_generates_code
      [of demo_fw "''scd4x,selftest''" demo_handle "scripted []" demo_event demo_host, OF f t1 _ c]
    by (simp add: t2 sn demo_host_def)
qed

subsection \<open>The maintenance gate: second invocation\<close>

text \<open>
  C1. A \<^verbatim>\<open>scd4x,factoryreset\<close> or \<^verbatim>\<open>scd4x,selftest\<close> command that finds a confirmation code on
  file compares the third token, in the case the caller wrote it, with the stored code. If
  they are equal, \<^verbatim>\<open>stopPeriodicMeasurement\<close> is the one bus operation performed and the call
  returns what it returned; if it succeeded, the handle is uninitialized, the first-read
  flag is armed, the pending flag of the sub-command is set and a timer at
  \<^verbatim>\<open>millis() + P135_STOP_MEASUREMENT_DELAY\<close> is requested for the task. If they differ, the call
  returns failure and neither the bus nor the scheduler is used. In every case the stored
  code is cleared, so that the next such command is a first invocation again and derives a
  code anew.
\<close>

theorem second_invocation_checks_code:
  assumes "P135_FEATURE_RESET_COMMANDS fw"
    and "parseString fw string 1 = ''scd4x''"
    and "parseString fw string 2 = ''factoryreset'' \<or> parseString fw string 2 = ''selftest''"
    and "factoryResetCode p \<noteq> []"
    and "scd4x p = Some s"
  shows "\<exists>r p' h'.
           plugin_write drv fw event string p h = Some (r, p', h') \<and>
           factoryResetCode p' = [] \<and>
           (if parseStringKeepCase fw string 3 = factoryResetCode p then
              performed h h' = [StopPeriodicMeasurement (fst (scd4x_stopPeriodicMeasurement drv s))] \<and>
              r = fst (scd4x_stopPeriodicMeasurement drv s) \<and>
              (fst (scd4x_stopPeriodicMeasurement drv s) \<longrightarrow>
                 \<not> initialized p' \<and> firstRead p' \<and>
                 (if parseString fw string 2 = ''selftest'' then mustRunSelfTest p'
                  else mustRunFactoryReset p') \<and>
                 timers h' = timers h @ [(TaskIndex event, millis h + P135_STOP_MEASUREMENT_DELAY fw)])
            else \<not> r \<and> performed h h' = [] \<and> timers h' = timers h) \<and>
           (\<forall>event2 string2 h2.
              parseString fw string2 1 = ''scd4x'' \<and>
              (parseString fw string2 2 = ''factoryreset'' \<or> parseString fw string2 2 = ''selftest'') \<longrightarrow>
              (\<exists>h3. plugin_write drv fw event2 string2 p' h2 =
                 Some (True, p'\<lparr>factoryResetCode := new_code p (parseString fw string2 2 = ''selftest'')\<rparr>, h3)))"
proof -
  let ?w = "plugin_write drv fw event string p h"
  obtain r p' h' where w: "?w = Some (r, p', h')"
    using write_second_invocation [OF assms, where drv = drv and event = event and h = h]
    by (auto simp add: Let_def split: if_splits)
  have c: "factoryResetCode p' = []"
    using w write_second_invocation [OF assms, where drv = drv and event = event and h = h]
    by (auto simp add: Let_def split: if_splits)
  have sn: "serialNumber p' = serialNumber p"
    using w write_second_invocation [OF assms, where drv = drv and event = event and h = h]
    by (auto simp add: Let_def split: if_splits)
  have body: "if parseStringKeepCase fw string 3 = factoryResetCode p then
              performed h h' = [StopPeriodicMeasurement (fst (scd4x_stopPeriodicMeasurement drv s))] \<and>
              r = fst (scd4x_stopPeriodicMeasurement drv s) \<and>
              (fst (scd4x_stopPeriodicMeasurement drv s) \<longrightarrow>
                 \<not> initialized p' \<and> firstRead p' \<and>
                 (if parseString fw string 2 = ''selftest'' then mustRunSelfTest p'
                  else mustRunFactoryReset p') \<and>
                 timers h' = timers h @ [(TaskIndex event, millis h + P135_STOP_MEASUREMENT_DELAY fw)])
            else \<not> r \<and> performed h h' = [] \<and> timers h' = timers h"
    using w write_second_invocation [OF assms, where drv = drv and event = event and h = h]
    by (auto simp add: Let_def performed_def addLog_def schedule_task_device_timer_def split: if_splits)
  have nc: "new_code p' d = new_code p d" for d
    by (simp add: new_code_def sn)
  have again: "\<exists>h3. plugin_write drv fw event2 string2 p' h2 =
                 Some (True, p'\<lparr>factoryResetCode := new_code p (parseString fw string2 2 = ''selftest'')\<rparr>, h3)"
    if "parseString fw string2 1 = ''scd4x''"
      and "parseString fw string2 2 = ''factoryreset'' \<or> parseString fw string2 2 = ''selftest''"
    for event2 string2 h2
    using write_first_invocation [OF assms(1) that c, where drv = drv and event = event2 and h = h2] by (simp add: nc)
  show ?thesis
    using w c body again by blast
qed

theorem second_invocation_checks_code_witness:
  "\<exists>p' h'.
     plugin_write (scripted []) demo_fw demo_event ''scd4x,factoryreset,Scd4x137areseT''
       (demo_handle\<lparr>factoryResetCode := ''Scd4x137areseT''\<rparr>) demo_host = Some (True, p', h') \<and>
     factoryResetCode p' = [] \<and> \<not> initialized p' \<and> firstRead p' \<and> mustRunFactoryReset p' \<and>
     performed demo_host h' = [StopPeriodicMeasurement True] \<and> timers h' = [(2, 1550)] \<and>
     (\<exists>h3. plugin_write (scripted []) demo_fw demo_event ''scd4x,selftest'' p' demo_host =
        Some (True, p'\<lparr>factoryResetCode := ''Scd4x31a6SelF''\<rparr>, h3))"
proof -
  let ?p = "demo_handle\<lparr>factoryResetCode := ''Scd4x137areseT''\<rparr>"
  have c: "factoryResetCode ?p \<noteq> []" by simp
  have s: "scd4x ?p = Some [True, True]" by (simp add: demo_handle_fields)
  have n: "new_code ?p True = ''Scd4x31a6SelF''"
    by (simp add: new_code_def char_at_def demo_handle_fields)
  from second_invocation_checks_code
         [OF demo_feature demo_tokens_factoryreset(1) disjI1 [OF demo_tokens_factoryreset(2)] c s,
          where drv = "scripted []" and event = demo_event and h = demo_host]
  obtain r p' h' where
    w: "plugin_write (scripted []) demo_fw demo_event ''scd4x,factoryreset,Scd4x137areseT'' ?p demo_host
          = Some (r, p', h')"
    and e: "factoryResetCode p' = []"
    and b: "performed demo_host h' = [StopPeriodicMeasurement True] \<and> r \<and>
            \<not> initialized p' \<and> firstRead p' \<and> mustRunFactoryReset p' \<and> timers h' = [(2, 1550)]"
    and a: "\<forall>event2 string2 h2.
              parseString demo_fw string2 1 = ''scd4x'' \<and>
              (parseString demo_fw string2 2 = ''factoryreset'' \<or> parseString demo_fw string2 2 = ''selftest'') \<longrightarrow>
              (\<exists>h3. plugin_write (scripted []) demo_fw event2 string2 p' h2 =
                 Some (True, p'\<lparr>factoryResetCode := new_code ?p (parseString demo_fw string2 2 = ''selftest'')\<rparr>, h3))"
    by (auto simp add: demo_tokens_factoryreset demo_stop demo_host_fields demo_event_fields demo_stop_delay)
  from a [rule_format, of "''scd4x,selftest''" demo_event demo_host]
  have "\<exists>h3. plugin_write (scripted []) demo_fw demo_event ''scd4x,selftest'' p' demo_host =
        Some (True, p'\<lparr>factoryResetCode := ''Scd4x31a6SelF''\<rparr>, h3)"
    using demo_tokens_first by (simp add: n)
  with w e b show ?thesis by auto
qed

text \<open>
  C10. The operation that a confirming invocation arms is the one its own sub-command names,
  whichever sub-command the code was generated for: after a first invocation of either
  sub-command, a second invocation of either sub-command that carries the generated code (the
  sensor stopping) returns success and sets the pending self-test flag when it is
  \<^verbatim>\<open>selftest\<close> and the pending factory-reset flag when it is \<^verbatim>\<open>factoryreset\<close>, leaving the
  other flag as it was.
\<close>

theorem armed_operation_follows_second_command:
  assumes "P135_FEATURE_RESET_COMMANDS fw"
    and "parseString fw string1 1 = ''scd4x''"
    and "parseString fw string1 2 = ''factoryreset'' \<or> parseString fw string1 2 = ''selftest''"
    and "factoryResetCode p = []"
    and "parseString fw string2 1 = ''scd4x''"
    and "parseString fw string2 2 = ''factoryreset'' \<or> parseString fw string2 2 = ''selftest''"
    and "parseStringKeepCase fw string2 3 = new_code p (parseString fw string1 2 = ''selftest'')"
    and "scd4x p = Some s"
    and "fst (scd4x_stopPeriodicMeasurement drv s)"
  shows "\<exists>p1 h1 p2 h2.
           plugin_write drv fw event1 string1 p h = Some (True, p1, h1) \<and>
           factoryResetCode p1 = new_code p (parseString fw string1 2 = ''selftest'') \<and>
           plugin_write drv fw event2 string2 p1 h1 = Some (True, p2, h2) \<and>
           (if parseString fw string2 2 = ''selftest'' then
              mustRunSelfTest p2 \<and> mustRunFactoryReset p2 = mustRunFactoryReset p
            else mustRunFactoryReset p2 \<and> mustRunSelfTest p2 = mustRunSelfTest p)"
proof -
  let ?p1 = "p\<lparr>factoryResetCode := new_code p (parseString fw string1 2 = ''selftest'')\<rparr>"
  obtain h1 where w1: "plugin_write drv fw event1 string1 p h = Some (True, ?p1, h1)"
    using write_first_invocation [OF assms(1-4), where drv = drv and event = event1 and h = h]
    by simp
  have c: "factoryResetCode ?p1 \<noteq> []"
    by (simp add: new_code_not_empty)
  have s: "scd4x ?p1 = Some s"
    using assms(8) by simp
  have m: "parseStringKeepCase fw string2 3 = factoryResetCode ?p1"
    using assms(7) by simp
  show ?thesis
    using w1 assms(9) m
      write_second_invocation [OF assms(1) assms(5) assms(6) c s, where drv = drv and event = event2 and h = h1]
    by (auto simp add: Let_def)
qed

theorem armed_operation_follows_second_command_witness:
  "\<exists>p1 h1 p2 h2.
     plugin_write (scripted []) demo_fw demo_event ''scd4x,factoryreset'' demo_handle demo_host =
       Some (True, p1, h1) \<and>
     factoryResetCode p1 = ''Scd4x137areseT'' \<and>
     plugin_write (scripted []) demo_fw demo_event ''scd4x,selftest,Scd4x137areseT'' p1 h1 =
       Some (True, p2, h2) \<and>
     mustRunSelfTest p2 \<and> \<not> mustRunFactoryReset p2"
proof -
  have n: "new_code demo_handle False = ''Scd4x137areseT''"
    by (simp add: new_code_def char_at_def demo_handle_fields)
  have k: "parseStringKeepCase demo_fw ''scd4x,selftest,Scd4x137areseT'' 3 =
           new_code demo_handle (parseString demo_fw ''scd4x,factoryreset'' 2 = ''selftest'')"
    by (simp add: demo_tokens_selftest demo_tokens_first n)
  have st: "fst (scd4x_stopPeriodicMeasurement (scripted []) [True, True])"
    by (simp add: demo_stop)
  show ?thesis
    using armed_operation_follows_second_command
      [OF demo_feature demo_tokens_first(1) disjI1 [OF demo_tokens_first(2)] demo_handle_fields(3)
          demo_tokens_selftest(1) disjI2 [OF demo_tokens_selftest(2)] k demo_handle_fields(1) st,
       where ?event1.0 = demo_event and ?event2.0 = demo_event and h = demo_host]
    by (simp add: demo_tokens_selftest demo_tokens_first n demo_handle_fields)
qed

subsection \<open>The maintenance gate: operations and their confirmation\<close>

text \<open>
  What holds of every sequence of \<^verbatim>\<open>plugin_read\<close> and \<^verbatim>\<open>plugin_write\<close> calls on a handle that
  starts with no maintenance request pending and no code on file: a call that performs
  \<^verbatim>\<open>performFactoryReset\<close> (or \<^verbatim>\<open>performSelfTest\<close>) is a \<^verbatim>\<open>plugin_read\<close> on an uninitialized
  handle, and somewhere before it the operation was confirmed, by a command that carried the
  code then on file, itself generated by an earlier command, and that stopped the periodic
  measurement.
\<close>

lemma maintenance_needs_earlier_confirmation:
  assumes "\<not> mustRunFactoryReset p" and "\<not> mustRunSelfTest p" and "factoryResetCode p = []"
    and "run drv fw calls p h = Some steps"
    and "k < length steps"
    and "performs doSelftest (steps ! k)"
  shows "\<exists>i j. i < j \<and> j < k \<and>
           generates fw (steps ! i) \<and>
           factoryResetCode (after (steps ! i)) = factoryResetCode (before (steps ! j)) \<and>
           confirms fw doSelftest (steps ! j) \<and>
           \<not> isInitialized (before (steps ! k)) \<and> (\<exists>event. the_call (steps ! k) = Read event)"
proof -
  have n: "\<not> armed doSelftest p"
    using assms(1,2) by (simp add: armed_def)
  from armed_history [OF assms(4,5,6)] n obtain j where
    j: "j < k" and c: "confirms fw doSelftest (steps ! j)"
    and u: "\<not> isInitialized (before (steps ! k))" "\<exists>event. the_call (steps ! k) = Read event"
    by blast
  from c have ne: "factoryResetCode (before (steps ! j)) \<noteq> []"
    by (auto simp add: confirms_def split: call.splits)
  from code_history [OF assms(4) _ ne] ne j assms(5,3) obtain i where
    "i < j" and "generates fw (steps ! i)"
    and "factoryResetCode (after (steps ! i)) = factoryResetCode (before (steps ! j))"
    by auto
  with j c u show ?thesis by blast
qed

text \<open>
  C4. The claim asks for more, and the code does not give it: each run of the operation is
  to follow a stop made for it and a one-time code echoed back for it. The pending flags
  \<^verbatim>\<open>mustRunFactoryReset\<close> and \<^verbatim>\<open>mustRunSelfTest\<close> are set by the confirming command and never
  cleared. In the run below the handle is constructed on a sensor that answers every request;
  a factory reset is requested, confirmed (second call) and performed (third call), and the
  periodic measurement restarts. Then a self-test is requested and confirmed (fifth call);
  the factory reset is not confirmed again. The read that follows performs the factory reset
  a second time, restarts the periodic measurement, and only then performs the self-test,
  on a sensor that is measuring.
\<close>

theorem factory_reset_reruns_unconfirmed:
  "map_option (map ops)
     (construct_and_run cx4_sensor demo_fw 0 0 0 True False False demo_host cx4_calls) =
     Some [[], [StopPeriodicMeasurement True],
           [PerformFactoryReset True, StartPeriodicMeasurement True],
           [], [StopPeriodicMeasurement True],
           [PerformFactoryReset True, StartPeriodicMeasurement True,
            PerformSelfTest True, StartPeriodicMeasurement True]] \<and>
   map_option (map (confirms demo_fw False))
     (construct_and_run cx4_sensor demo_fw 0 0 0 True False False demo_host cx4_calls) =
     Some [False, True, False, False, False, False] \<and>
   map_option (map (confirms demo_fw True))
     (construct_and_run cx4_sensor demo_fw 0 0 0 True False False demo_host cx4_calls) =
     Some [False, False, False, False, True, False] \<and>
   map_option (map returned)
     (construct_and_run cx4_sensor demo_fw 0 0 0 True False False demo_host cx4_calls) =
     Some [True, True, True, True, True, True]"
proof -
  let ?c0 = "Write demo_event ''scd4x,factoryreset''"
  let ?c1 = "Write demo_event ''scd4x,factoryreset,Scd4x137areseT''"
  let ?c2 = "Read demo_event"
  let ?c3 = "Write demo_event ''scd4x,selftest''"
  let ?c4 = "Write demo_event ''scd4x,selftest,Scd4x31a6SelF''"
  define p0 where "p0 = demo_handle\<lparr>scd4x := Some [True, True, True, True, True, True, True, True]\<rparr>"
  obtain h0 where
    new: "P135_new cx4_sensor demo_fw 0 0 0 True False False demo_host = Some (p0, h0)"
    using cx4_constructed by (auto simp add: p0_def)
  have f0: "factoryResetCode p0 = []" "serialNumber p0 = ''0123456789ab''"
    by (simp_all add: p0_def demo_handle_fields)
  have n0: "new_code p0 False = ''Scd4x137areseT''"
    by (simp add: new_code_def char_at_def f0)
  define p1 where "p1 = p0\<lparr>factoryResetCode := ''Scd4x137areseT''\<rparr>"
  obtain h1 where
    w0: "plugin_write cx4_sensor demo_fw demo_event ''scd4x,factoryreset'' p0 h0 = Some (True, p1, h1)"
    and o0: "performed h0 h1 = []"
    using write_first_invocation [OF demo_feature demo_tokens_first(1)
        disjI1 [OF demo_tokens_first(2)] f0(1),
        where drv = cx4_sensor and event = demo_event and h = h0]
    by (simp add: demo_tokens_first n0 p1_def performed_def)
  have c1: "factoryResetCode p1 \<noteq> []" and cv1: "factoryResetCode p1 = ''Scd4x137areseT''"
    and s1: "scd4x p1 = Some [True, True, True, True, True, True, True, True]"
    by (simp_all add: p1_def p0_def)
  define p2 where
    "p2 = p1\<lparr>scd4x := Some [True, True, True, True, True, True, True], initialized := False,
             firstRead := True, mustRunFactoryReset := True, factoryResetCode := []\<rparr>"
  obtain h2 where
    w1: "plugin_write cx4_sensor demo_fw demo_event ''scd4x,factoryreset,Scd4x137areseT'' p1 h1 =
           Some (True, p2, h2)"
    and o1: "performed h1 h2 = [StopPeriodicMeasurement True]"
    using write_second_invocation [OF demo_feature demo_tokens_factoryreset(1)
        disjI1 [OF demo_tokens_factoryreset(2)] c1 s1,
        where drv = cx4_sensor and event = demo_event and h = h1]
    by (simp add: cv1 demo_tokens_factoryreset cx4_sensor_def demo_stop_answer p2_def Let_def
        performed_def)
  have q2: "\<not> initialized p2" "mustRunFactoryReset p2" "\<not> mustRunSelfTest p2"
    "scd4x p2 = Some (True # True # [True, True, True, True, True])"
    "\<not> useSingleShot p2" "\<not> lowPowerMeasurement p2"
    by (simp_all add: p2_def p1_def p0_def demo_handle_fields)
  define p3 where "p3 = p2\<lparr>scd4x := Some [True, True, True, True, True], initialized := True\<rparr>"
  obtain h3 where
    r2: "plugin_read cx4_sensor demo_fw demo_event p2 h2 = Some (True, p3, h3)"
    and o2: "performed h2 h3 = [PerformFactoryReset True, StartPeriodicMeasurement True]"
    using demo_read_factory_reset [OF q2, where event = demo_event and h = h2]
    unfolding cx4_sensor_def p3_def by blast
  have f3: "factoryResetCode p3 = []" "serialNumber p3 = ''0123456789ab''"
    by (simp_all add: p3_def p2_def p1_def p0_def demo_handle_fields)
  have n3: "new_code p3 True = ''Scd4x31a6SelF''"
    by (simp add: new_code_def char_at_def f3)
  define p4 where "p4 = p3\<lparr>factoryResetCode := ''Scd4x31a6SelF''\<rparr>"
  obtain h4 where
    w3: "plugin_write cx4_sensor demo_fw demo_event ''scd4x,selftest'' p3 h3 = Some (True, p4, h4)"
    and o3: "performed h3 h4 = []"
    using write_first_invocation [OF demo_feature demo_tokens_first(3)
        disjI2 [OF demo_tokens_first(4)] f3(1),
        where drv = cx4_sensor and event = demo_event and h = h3]
    by (simp add: demo_tokens_first n3 p4_def performed_def)
  have c4: "factoryResetCode p4 \<noteq> []" and cv4: "factoryResetCode p4 = ''Scd4x31a6SelF''"
    and s4: "scd4x p4 = Some [True, True, True, True, True]"
    by (simp_all add: p4_def p3_def)
  define p5 where
    "p5 = p4\<lparr>scd4x := Some [True, True, True, True], initialized := False,
             firstRead := True, mustRunSelfTest := True, factoryResetCode := []\<rparr>"
  obtain h5 where
    w4: "plugin_write cx4_sensor demo_fw demo_event ''scd4x,selftest,Scd4x31a6SelF'' p4 h4 =
           Some (True, p5, h5)"
    and o4: "performed h4 h5 = [StopPeriodicMeasurement True]"
    using write_second_invocation [OF demo_feature demo_tokens_selftest_code(1)
        disjI2 [OF demo_tokens_selftest_code(2)] c4 s4,
        where drv = cx4_sensor and event = demo_event and h = h4]
    by (simp add: cv4 demo_tokens_selftest_code cx4_sensor_def demo_stop_answer p5_def Let_def
        performed_def)
  have q5: "\<not> initialized p5" "mustRunFactoryReset p5" "mustRunSelfTest p5"
    "scd4x p5 = Some (True # True # True # True # [])"
    "\<not> useSingleShot p5" "\<not> lowPowerMeasurement p5"
    by (simp_all add: p5_def p4_def p3_def p2_def p1_def p0_def demo_handle_fields)
  define p6 where "p6 = p5\<lparr>scd4x := Some [], initialized := True\<rparr>"
  obtain h6 where
    r5: "plugin_read cx4_sensor demo_fw demo_event p5 h5 = Some (True, p6, h6)"
    and o5: "performed h5 h6 =
               [PerformFactoryReset True, StartPeriodicMeasurement True,
                PerformSelfTest True, StartPeriodicMeasurement True]"
    using demo_read_both [OF q5, where event = demo_event and h = h5]
    unfolding cx4_sensor_def p6_def by blast
  define steps where
    "steps = [\<lparr>the_call = ?c0, before = p0, host_before = h0, returned = True,
                after = p1, host_after = h1\<rparr>,
              \<lparr>the_call = ?c1, before = p1, host_before = h1, returned = True,
                after = p2, host_after = h2\<rparr>,
              \<lparr>the_call = ?c2, before = p2, host_before = h2, returned = True,
                after = p3, host_after = h3\<rparr>,
              \<lparr>the_call = ?c3, before = p3, host_before = h3, returned = True,
                after = p4, host_after = h4\<rparr>,
              \<lparr>the_call = ?c4, before = p4, host_before = h4, returned = True,
                after = p5, host_after = h5\<rparr>,
              \<lparr>the_call = ?c2, before = p5, host_before = h5, returned = True,
                after = p6, host_after = h6\<rparr>]"
  have run: "construct_and_run cx4_sensor demo_fw 0 0 0 True False False demo_host cx4_calls =
             Some steps"
    using new w0 w1 r2 w3 w4 r5
    by (simp add: construct_and_run_def cx4_calls_def exec_def steps_def)
  have a: "map ops steps =
       [[], [StopPeriodicMeasurement True],
        [PerformFactoryReset True, StartPeriodicMeasurement True],
        [], [StopPeriodicMeasurement True],
        [PerformFactoryReset True, StartPeriodicMeasurement True,
         PerformSelfTest True, StartPeriodicMeasurement True]]"
    using o0 o1 o2 o3 o4 o5 by (simp add: steps_def ops_def)
  have b: "map (confirms demo_fw False) steps = [False, True, False, False, False, False]"
    using o1 demo_tokens_first demo_tokens_factoryreset demo_tokens_selftest_code
    by (simp add: steps_def confirms_def ops_def f0 cv1 f3 cv4)
  have c: "map (confirms demo_fw True) steps = [False, False, False, False, True, False]"
    using o4 demo_tokens_first demo_tokens_factoryreset demo_tokens_selftest_code
    by (simp add: steps_def confirms_def ops_def f0 cv1 f3 cv4)
  have d: "map returned steps = [True, True, True, True, True, True]"
    by (simp add: steps_def)
  show ?thesis
    by (simp only: run option.map a b c d)
qed

subsection \<open>The configuration query\<close>

text \<open>
  C9. \<^verbatim>\<open>plugin_get_config_value\<close> returns success with the decimal numeral of the sensor's
  altitude for \<^verbatim>\<open>getaltitude\<close>, with the temperature offset formatted by \<^verbatim>\<open>toString\<close> with 2
  decimals for \<^verbatim>\<open>gettempoffset\<close>, with \<^verbatim>\<open>1\<close> or \<^verbatim>\<open>0\<close> for the data-ready status
  (\<^verbatim>\<open>getdataready\<close>) and for the automatic self-calibration setting
  (\<^verbatim>\<open>getselfcalibration\<close>); for any other keyword it returns failure, the string is as it
  was and nothing else has changed.
\<close>

theorem config_values:
  assumes "scd4x p = Some s"
  shows "(parseString fw string 1 = ''getaltitude'' \<longrightarrow>
            (\<exists>p' h'. plugin_get_config_value drv fw event string p h =
               Some ((True, String_uint16 (fst (scd4x_getSensorAltitude drv s))), p', h'))) \<and>
         (parseString fw string 1 = ''gettempoffset'' \<longrightarrow>
            (\<exists>p' h'. plugin_get_config_value drv fw event string p h =
               Some ((True, toString fw (fst (scd4x_getTemperatureOffset drv s)) 2), p', h'))) \<and>
         (parseString fw string 1 = ''getdataready'' \<longrightarrow>
            (\<exists>p' h'. plugin_get_config_value drv fw event string p h =
               Some ((True, if fst (scd4x_getDataReadyStatus drv s) then ''1'' else ''0''), p', h'))) \<and>
         (parseString fw string 1 = ''getselfcalibration'' \<longrightarrow>
            (\<exists>p' h'. plugin_get_config_value drv fw event string p h =
               Some ((True, if fst (scd4x_getAutomaticSelfCalibrationEnabled drv s) then ''1'' else ''0''),
                     p', h'))) \<and>
         (parseString fw string 1 \<notin> {''getaltitude'', ''gettempoffset'', ''getdataready'', ''getselfcalibration''} \<longrightarrow>
            plugin_get_config_value drv fw event string p h = Some ((False, string), p, h))"
  using assms
  by (simp add: plugin_get_config_value_def bus_def String_bool_def Let_def split: prod.splits)

theorem config_values_witness:
  "(\<exists>p' h'. plugin_get_config_value (scripted []) demo_fw demo_event ''GetTempOffset'' demo_handle demo_host =
      Some ((True, ''4.00''), p', h')) \<and>
   (\<exists>p' h'. plugin_get_config_value (scripted []) demo_fw demo_event ''getaltitude'' demo_handle demo_host =
      Some ((True, ''0''), p', h')) \<and>
   (\<exists>p' h'. plugin_get_config_value (scripted []) demo_fw demo_event ''getdataready'' demo_handle demo_host =
      Some ((True, ''1''), p', h')) \<and>
   (\<exists>p' h'. plugin_get_config_value (scripted []) demo_fw demo_event ''getselfcalibration'' demo_handle demo_host =
      Some ((True, ''1''), p', h')) \<and>
   plugin_get_config_value (scripted []) demo_fw demo_event ''gettemperature'' demo_handle demo_host =
      Some ((False, ''gettemperature''), demo_handle, demo_host)"
proof -
  have k: "parseString demo_fw ''GetTempOffset'' 1 = ''gettempoffset''"
    "parseString demo_fw ''getaltitude'' 1 = ''getaltitude''"
    "parseString demo_fw ''getdataready'' 1 = ''getdataready''"
    "parseString demo_fw ''getselfcalibration'' 1 = ''getselfcalibration''"
    "parseString demo_fw ''gettemperature'' 1 = ''gettemperature''"
    by code_simp+
  have v: "toString demo_fw (fst (scd4x_getTemperatureOffset (scripted []) [True, True])) 2 = ''4.00''"
    "String_uint16 (fst (scd4x_getSensorAltitude (scripted []) [True, True])) = ''0''"
    "fst (scd4x_getDataReadyStatus (scripted []) [True, True])"
    "fst (scd4x_getAutomaticSelfCalibrationEnabled (scripted []) [True, True])"
    by code_simp+
  note c = config_values [OF demo_handle_fields(1), where drv = "scripted []" and fw = demo_fw
      and event = demo_event and h = demo_host]
  show ?thesis
    using c [where string = "''GetTempOffset''"] c [where string = "''getaltitude''"]
      c [where string = "''getdataready''"] c [where string = "''getselfcalibration''"]
      c [where string = "''gettemperature''"] k v
    by simp
qed

end
